theory Spec2Isabelle
  imports Complex_Main
begin

unbundle bit_operations_syntax

section \<open>Data model\<close>

text \<open>
  The operator handlers of \<^verbatim>\<open>torch2trt/handlers/ops.py\<close> receive a list of inputs that
  mixes real tensors, symbolic engine tensors and plain Python values. A handler either
  adds layers to the engine network that is being built (conversion mode) or runs the
  real tensor computation (fallback mode). The model passes the state explicitly: the
  active network, and the heap of real tensors that in-place operations change.
\<close>

subsection \<open>Python exceptions\<close>

datatype error =
    AssertionError
  | ValueError
  | TypeError
  | AttributeError
  | IndexError
  | ZeroDivisionError
  | NotImplementedError
  | OverflowError

subsection \<open>NumPy arrays\<close>

text \<open>
  An array element is a real number or one of the IEEE special values that NumPy
  produces instead of raising (division by zero gives an infinity, an invalid operation
  gives NaN). The model keeps one zero, the positive one, and does not round a value to
  the precision of its dtype: the dtype is carried as a tag.
\<close>

datatype npval = Fin real | PosInf | NegInf | NaN

datatype dtype = Float16 | Float32 | Float64 | Int32 | Int64

record ndarray =
  nd_dtype :: dtype
  nd_shape :: "nat list"
  nd_data :: "npval list"

text \<open>\<^verbatim>\<open>arr.size\<close>: the number of elements.\<close>

definition nd_size :: "ndarray \<Rightarrow> nat" where
  "nd_size a = prod_list (nd_shape a)"

text \<open>
  Arithmetic on elements follows IEEE 754 for the special values; on real numbers it is
  exact.
\<close>

fun np_negative_val :: "npval \<Rightarrow> npval" where
  "np_negative_val (Fin a) = Fin (- a)"
| "np_negative_val PosInf = NegInf"
| "np_negative_val NegInf = PosInf"
| "np_negative_val NaN = NaN"

fun np_add_val :: "npval \<Rightarrow> npval \<Rightarrow> npval" where
  "np_add_val (Fin a) (Fin b) = Fin (a + b)"
| "np_add_val NaN y = NaN"
| "np_add_val x NaN = NaN"
| "np_add_val PosInf NegInf = NaN"
| "np_add_val NegInf PosInf = NaN"
| "np_add_val PosInf y = PosInf"
| "np_add_val NegInf y = NegInf"
| "np_add_val x PosInf = PosInf"
| "np_add_val x NegInf = NegInf"

fun np_multiply_val :: "npval \<Rightarrow> npval \<Rightarrow> npval" where
  "np_multiply_val (Fin a) (Fin b) = Fin (a * b)"
| "np_multiply_val NaN y = NaN"
| "np_multiply_val x NaN = NaN"
| "np_multiply_val (Fin a) PosInf = (if a = 0 then NaN else if 0 < a then PosInf else NegInf)"
| "np_multiply_val (Fin a) NegInf = (if a = 0 then NaN else if 0 < a then NegInf else PosInf)"
| "np_multiply_val PosInf (Fin b) = (if b = 0 then NaN else if 0 < b then PosInf else NegInf)"
| "np_multiply_val NegInf (Fin b) = (if b = 0 then NaN else if 0 < b then NegInf else PosInf)"
| "np_multiply_val PosInf PosInf = PosInf"
| "np_multiply_val NegInf NegInf = PosInf"
| "np_multiply_val PosInf NegInf = NegInf"
| "np_multiply_val NegInf PosInf = NegInf"

text \<open>True division never raises: a finite value over zero is an infinity, zero over zero NaN.\<close>

fun np_divide_val :: "npval \<Rightarrow> npval \<Rightarrow> npval" where
  "np_divide_val (Fin a) (Fin b) =
     (if b \<noteq> 0 then Fin (a / b) else if a = 0 then NaN else if 0 < a then PosInf else NegInf)"
| "np_divide_val NaN y = NaN"
| "np_divide_val x NaN = NaN"
| "np_divide_val (Fin a) y = Fin 0"
| "np_divide_val PosInf (Fin b) = (if 0 \<le> b then PosInf else NegInf)"
| "np_divide_val NegInf (Fin b) = (if 0 \<le> b then NegInf else PosInf)"
| "np_divide_val PosInf PosInf = NaN"
| "np_divide_val PosInf NegInf = NaN"
| "np_divide_val NegInf PosInf = NaN"
| "np_divide_val NegInf NegInf = NaN"

fun np_sqrt_val :: "npval \<Rightarrow> npval" where
  "np_sqrt_val (Fin a) = (if 0 \<le> a then Fin (sqrt a) else NaN)"
| "np_sqrt_val PosInf = PosInf"
| "np_sqrt_val x = NaN"

text \<open>The dtype of a result, for the dtypes of the model.\<close>

fun is_float :: "dtype \<Rightarrow> bool" where
  "is_float Int32 = False"
| "is_float Int64 = False"
| "is_float d = True"

definition promote_types :: "dtype \<Rightarrow> dtype \<Rightarrow> dtype" where
  "promote_types a b =
     (if a = b then a
      else if is_float a \<and> is_float b then (if a = Float64 \<or> b = Float64 then Float64 else Float32)
      else if \<not> is_float a \<and> \<not> is_float b then Int64
      else Float64)"

definition to_float :: "dtype \<Rightarrow> dtype" where
  "to_float d = (if is_float d then d else Float64)"

text \<open>
  Broadcasting of two shapes, aligned at the last axis; both functions work on the
  reversed shapes. \<open>src_index\<close> maps a flat (row-major) index of the result to the flat
  index of the operand's element.
\<close>

fun broadcast_rev :: "nat list \<Rightarrow> nat list \<Rightarrow> nat list option" where
  "broadcast_rev [] ys = Some ys"
| "broadcast_rev xs [] = Some xs"
| "broadcast_rev (x # xs) (y # ys) =
     (if x = y \<or> y = 1 then map_option ((#) x) (broadcast_rev xs ys)
      else if x = 1 then map_option ((#) y) (broadcast_rev xs ys)
      else None)"

definition broadcast_shapes :: "nat list \<Rightarrow> nat list \<Rightarrow> nat list option" where
  "broadcast_shapes a b = map_option rev (broadcast_rev (rev a) (rev b))"

fun src_index :: "nat list \<Rightarrow> nat list \<Rightarrow> nat \<Rightarrow> nat" where
  "src_index (d # ds) (t # ts) k = (if d = 1 then 0 else k mod t) + d * src_index ds ts (k div t)"
| "src_index ds ts k = 0"

definition broadcast_to :: "nat list \<Rightarrow> ndarray \<Rightarrow> npval list" where
  "broadcast_to sh a =
     map (\<lambda>k. nd_data a ! src_index (rev (nd_shape a)) (rev sh) k) [0..<prod_list sh]"

definition np_binary ::
  "(npval \<Rightarrow> npval \<Rightarrow> npval) \<Rightarrow> dtype \<Rightarrow> ndarray \<Rightarrow> ndarray \<Rightarrow> error + ndarray" where
  "np_binary f d a b =
     (case broadcast_shapes (nd_shape a) (nd_shape b) of
        None \<Rightarrow> Inl ValueError
      | Some sh \<Rightarrow>
          Inr \<lparr>nd_dtype = d, nd_shape = sh,
               nd_data = map (\<lambda>(x, y). f x y) (zip (broadcast_to sh a) (broadcast_to sh b))\<rparr>)"

definition np_add :: "ndarray \<Rightarrow> ndarray \<Rightarrow> error + ndarray" where
  "np_add a b = np_binary np_add_val (promote_types (nd_dtype a) (nd_dtype b)) a b"

definition np_multiply :: "ndarray \<Rightarrow> ndarray \<Rightarrow> error + ndarray" where
  "np_multiply a b = np_binary np_multiply_val (promote_types (nd_dtype a) (nd_dtype b)) a b"

definition np_divide :: "ndarray \<Rightarrow> ndarray \<Rightarrow> error + ndarray" where
  "np_divide a b =
     np_binary np_divide_val (to_float (promote_types (nd_dtype a) (nd_dtype b))) a b"

definition np_negative :: "ndarray \<Rightarrow> ndarray" where
  "np_negative a = a\<lparr>nd_data := map np_negative_val (nd_data a)\<rparr>"

definition np_sqrt :: "ndarray \<Rightarrow> ndarray" where
  "np_sqrt a = a\<lparr>nd_dtype := to_float (nd_dtype a), nd_data := map np_sqrt_val (nd_data a)\<rparr>"

text \<open>\<^verbatim>\<open>arr + x\<close> and \<^verbatim>\<open>1 / arr\<close> for a Python float \<open>x\<close> and the Python int 1.\<close>

definition np_add_scalar :: "ndarray \<Rightarrow> npval \<Rightarrow> ndarray" where
  "np_add_scalar a x =
     a\<lparr>nd_dtype := to_float (nd_dtype a), nd_data := map (\<lambda>v. np_add_val v x) (nd_data a)\<rparr>"

definition np_reciprocal :: "ndarray \<Rightarrow> ndarray" where
  "np_reciprocal a =
     a\<lparr>nd_dtype := to_float (nd_dtype a), nd_data := map (np_divide_val (Fin 1)) (nd_data a)\<rparr>"

definition np_ones_like :: "ndarray \<Rightarrow> ndarray" where
  "np_ones_like a = a\<lparr>nd_data := map (\<lambda>v. Fin 1) (nd_data a)\<rparr>"

text \<open>\<^verbatim>\<open>arr.astype(d)\<close>, \<^verbatim>\<open>np.array(arr, dtype=np.float32)\<close> and \<^verbatim>\<open>np.array(n, dtype=np.float32)\<close>.\<close>

definition astype :: "dtype \<Rightarrow> ndarray \<Rightarrow> ndarray" where
  "astype d a = a\<lparr>nd_dtype := d\<rparr>"

definition np_array_f32 :: "ndarray \<Rightarrow> ndarray" where
  "np_array_f32 a = astype Float32 a"

definition np_scalar_f32 :: "int \<Rightarrow> ndarray" where
  "np_scalar_f32 n = \<lparr>nd_dtype = Float32, nd_shape = [], nd_data = [Fin (of_int n)]\<rparr>"

subsection \<open>Input values\<close>

text \<open>
  A symbolic tensor is a handle into the network: an input of the network, or the first
  output of the layer at a position of the network's layer list. A real tensor is an
  address of the heap. \<open>SliceV\<close> is a Python \<^verbatim>\<open>slice\<close> object.
\<close>

datatype itensor = NetInput nat | LayerOutput nat

datatype "value" =
    Tensor nat
  | ITensor itensor
  | IntV int
  | FloatV npval
  | BoolV bool
  | NoneV
  | SliceV "int option" "int option" "int option"
  | ListV "value list"

definition ints :: "int list \<Rightarrow> value" where
  "ints xs = ListV (map IntV xs)"

subsection \<open>The engine network\<close>

text \<open>
  The engine builder is an external library. As the specification's boundary describes
  it, the model records each layer-construction call with its arguments, the attributes
  assigned to the layer afterwards (in the order of assignment), and hands out the
  layer's first output as a symbolic tensor. The dimensions of a symbolic tensor
  (without the batch axis) are the engine's to compute; \<open>tensor_dims\<close> gives them.
\<close>

datatype weights = Weights ndarray | EmptyWeights

datatype activation_type = Act_RELU
datatype pooling_type = Pool_MAX | Pool_AVERAGE
datatype scale_mode = Scale_UNIFORM | Scale_CHANNEL
datatype elementwise_op = EW_SUM | EW_SUB | EW_PROD | EW_DIV
datatype reduce_op = Reduce_SUM | Reduce_MAX

datatype layer_kind =
    Activation "value" activation_type
  | Pooling "value" pooling_type "int list"
  | Convolution "value" int "int list" weights weights
  | Deconvolution "value" int "int list" weights weights
  | Scale "value" scale_mode weights weights weights
  | ElementWise "value" "value" elementwise_op
  | Constant "nat list" weights
  | Reduce "value" reduce_op int bool
  | Slice "value" "int list" "int list" "int list"

record layer =
  kind :: layer_kind
  attrs :: "(string \<times> value) list"

record network =
  layers :: "layer list"
  tensor_dims :: "itensor \<Rightarrow> int list"

definition add_layer :: "layer_kind \<Rightarrow> network \<Rightarrow> nat \<times> network" where
  "add_layer k net =
     (length (layers net), net\<lparr>layers := layers net @ [\<lparr>kind = k, attrs = []\<rparr>]\<rparr>)"

definition set_attr :: "nat \<Rightarrow> string \<Rightarrow> value \<Rightarrow> network \<Rightarrow> network" where
  "set_attr l name v net =
     net\<lparr>layers := (layers net)[l := (layers net ! l)\<lparr>attrs := attrs (layers net ! l) @ [(name, v)]\<rparr>]\<rparr>"

definition get_output :: "nat \<Rightarrow> value" where
  "get_output l = ITensor (LayerOutput l)"

subsection \<open>The state and the libraries\<close>

text \<open>
  The heap holds the real tensors: every address has an array, and \<open>next_addr\<close> is the
  address the next new tensor gets.
\<close>

record heap =
  cells :: "nat \<Rightarrow> ndarray"
  next_addr :: nat

text \<open>
  Modelled from the spec: \<^verbatim>\<open>current_network()\<close> is defined in \<^verbatim>\<open>torch2trt.core\<close>, a module
  that the handlers import. Section 4.2: it returns the active engine-graph builder, or
  none. It reads the field \<open>current_network\<close> of the state.
\<close>

record state =
  current_network :: "network option"
  heap :: heap

text \<open>
  The tensor library is external as well. Its computations are a parameter of the
  handlers: \<open>torch_call\<close> runs the named function on its arguments and returns one
  value, \<open>torch_max\<close> is \<^verbatim>\<open>Tensor.max(dim, keepdim)\<close>, which returns the values and
  the indices. Both may raise and may change the heap.

  One operation of NumPy is a parameter too, because its result depends on the version
  of NumPy that is installed: \<open>np_wide_shift n\<close> is \<^verbatim>\<open>np.array(1, dtype=np.uint32) << n\<close> for
  a Python integer \<open>n\<close> of 32 or more, read as an integer, or the exception that the
  shift raises. The versions differ in the type they compute the shift in.
\<close>

record library =
  torch_call :: "string \<Rightarrow> value list \<Rightarrow> heap \<Rightarrow> (error + value) \<times> heap"
  torch_max :: "value \<Rightarrow> int \<Rightarrow> bool \<Rightarrow> heap \<Rightarrow> (error + value \<times> value) \<times> heap"
  np_wide_shift :: "nat \<Rightarrow> error + int"

text \<open>A fallback that returns the one result of a library call as its output list.\<close>

definition fallback :: "library \<Rightarrow> string \<Rightarrow> value list \<Rightarrow> state \<Rightarrow> (error + value list) \<times> state" where
  "fallback T name args s =
     (case torch_call T name args (heap s) of
        (Inl e, h) \<Rightarrow> (Inl e, s\<lparr>heap := h\<rparr>)
      | (Inr v, h) \<Rightarrow> (Inr [v], s\<lparr>heap := h\<rparr>))"

text \<open>
  ReLU is written out, since what it does to its operand matters: \<^verbatim>\<open>F.relu\<close> returns
  a new tensor, \<^verbatim>\<open>F.relu_\<close> overwrites its operand and returns it.
\<close>

definition relu_val :: "npval \<Rightarrow> npval" where
  "relu_val x = (case x of Fin r \<Rightarrow> Fin (max r 0) | PosInf \<Rightarrow> PosInf | NegInf \<Rightarrow> Fin 0 | NaN \<Rightarrow> NaN)"

definition relu_array :: "ndarray \<Rightarrow> ndarray" where
  "relu_array a = a\<lparr>nd_data := map relu_val (nd_data a)\<rparr>"

definition F_relu :: "value \<Rightarrow> heap \<Rightarrow> (error + value) \<times> heap" where
  "F_relu x h =
     (case x of
        Tensor a \<Rightarrow>
          (Inr (Tensor (next_addr h)),
           h\<lparr>cells := (cells h)(next_addr h := relu_array (cells h a)),
             next_addr := Suc (next_addr h)\<rparr>)
      | _ \<Rightarrow> (Inl TypeError, h))"

definition F_relu_inplace :: "value \<Rightarrow> heap \<Rightarrow> (error + value) \<times> heap" where
  "F_relu_inplace x h =
     (case x of
        Tensor a \<Rightarrow> (Inr (Tensor a), h\<lparr>cells := (cells h)(a := relu_array (cells h a))\<rparr>)
      | _ \<Rightarrow> (Inl TypeError, h))"

subsection \<open>The conversion gate\<close>

text \<open>\<^verbatim>\<open>isinstance(x, trt.ITensor)\<close> and \<^verbatim>\<open>isinstance(x, torch.Tensor)\<close>.\<close>

fun is_trt :: "value \<Rightarrow> bool" where
  "is_trt (ITensor t) = True"
| "is_trt _ = False"

fun is_tensor :: "value \<Rightarrow> bool" where
  "is_tensor (Tensor a) = True"
| "is_tensor _ = False"

text \<open>
  Modelled from the spec: \<^verbatim>\<open>has_trt_tensor\<close> is defined in \<^verbatim>\<open>torch2trt.core\<close>, a module
  that the handlers import. Section 4.3: given a list of input values, possibly nested one
  level, it is true if an element is a symbolic engine tensor. \<open>has_trt_elem\<close> is its
  test of one element of the list.
\<close>

fun has_trt_elem :: "value \<Rightarrow> bool" where
  "has_trt_elem (ITensor t) = True"
| "has_trt_elem (ListV xs) = list_ex is_trt xs"
| "has_trt_elem _ = False"

text \<open>
  Modelled from the spec: \<^verbatim>\<open>has_trt_tensor\<close> of \<^verbatim>\<open>torch2trt.core\<close>, as above.
\<close>

definition has_trt_tensor :: "value list \<Rightarrow> bool" where
  "has_trt_tensor inputs = list_ex has_trt_elem inputs"

subsection \<open>Reading tensors\<close>

text \<open>
  \<^verbatim>\<open>x.shape\<close> of a real or a symbolic tensor, and \<^verbatim>\<open>x.detach().cpu().numpy()\<close>, which
  only a real tensor has. A Python list index counts from the end when negative.
\<close>

definition py_shape :: "network \<Rightarrow> heap \<Rightarrow> value \<Rightarrow> error + int list" where
  "py_shape net h x =
     (case x of
        Tensor a \<Rightarrow> Inr (map int (nd_shape (cells h a)))
      | ITensor t \<Rightarrow> Inr (tensor_dims net t)
      | _ \<Rightarrow> Inl AttributeError)"

definition numpy :: "heap \<Rightarrow> value \<Rightarrow> error + ndarray" where
  "numpy h x = (case x of Tensor a \<Rightarrow> Inr (cells h a) | _ \<Rightarrow> Inl AttributeError)"

definition py_index :: "int \<Rightarrow> nat \<Rightarrow> nat option" where
  "py_index i n =
     (if 0 \<le> i \<and> i < int n then Some (nat i)
      else if - int n \<le> i \<and> i < 0 then Some (nat (int n + i))
      else None)"

section \<open>Handlers\<close>

text \<open>
  A handler takes the entries of its input list as arguments, in the order of the list
  and with the types the operator gives them: a tensor operand is a \<open>value\<close>, a Python
  int an \<open>int\<close>, a flag a \<open>bool\<close>, a float an \<open>npval\<close>. \<open>inputs\<close> is the list the handler
  passes to \<^verbatim>\<open>has_trt_tensor\<close>. The attribute mapping, which no handler reads, is left
  out. A name of the source that ends in an underscore ends in \<open>_inplace\<close> here, a leading
  underscore is dropped, and the variable \<^verbatim>\<open>dim\<close> is called \<open>axis\<close>.
\<close>

subsection \<open>relu and relu\_\<close>

definition aten_relu_inplace :: "value \<Rightarrow> state \<Rightarrow> (error + value list) \<times> state" where
  "aten_relu_inplace inp s =
     (let inputs = [inp] in
      if current_network s \<noteq> None \<and> has_trt_tensor inputs then
        (let (act, net) = add_layer (Activation inp Act_RELU) (the (current_network s))
         in (Inr [get_output act], s\<lparr>current_network := Some net\<rparr>))
      else
        (case F_relu_inplace inp (heap s) of
           (Inl e, h) \<Rightarrow> (Inl e, s\<lparr>heap := h\<rparr>)
         | (Inr v, h) \<Rightarrow> (Inr [v], s\<lparr>heap := h\<rparr>)))"

definition aten_relu :: "value \<Rightarrow> state \<Rightarrow> (error + value list) \<times> state" where
  "aten_relu inp s =
     (if current_network s \<noteq> None then
        (let (act, net) = add_layer (Activation inp Act_RELU) (the (current_network s))
         in (Inr [get_output act], s\<lparr>current_network := Some net\<rparr>))
      else
        (case F_relu inp (heap s) of
           (Inl e, h) \<Rightarrow> (Inl e, s\<lparr>heap := h\<rparr>)
         | (Inr v, h) \<Rightarrow> (Inr [v], s\<lparr>heap := h\<rparr>)))"

subsection \<open>max\_pool2d\<close>

definition aten_max_pool2d ::
  "library \<Rightarrow> value \<Rightarrow> int list \<Rightarrow> int list \<Rightarrow> int list \<Rightarrow> int list \<Rightarrow> state
    \<Rightarrow> (error + value list) \<times> state" where
  "aten_max_pool2d T inp ksize stride pad dilation s =
     (let inputs = [inp, ints ksize, ints stride, ints pad, ints dilation] in
      if current_network s \<noteq> None \<and> has_trt_tensor inputs then
        (let (layer, net1) = add_layer (Pooling inp Pool_MAX ksize) (the (current_network s));
             net2 = set_attr layer ''stride'' (ints stride) net1;
             net3 = set_attr layer ''padding'' (ints pad) net2;
             s' = s\<lparr>current_network := Some net3\<rparr>
         in if list_all (\<lambda>b. b = 1) dilation then (Inr [get_output layer], s')
            else (Inl AssertionError, s'))
      else fallback T ''F.max_pool2d'' inputs s)"

subsection \<open>adaptive\_avg\_pool2d\<close>

text \<open>
  \<^verbatim>\<open>[i // k for i, k in zip(xs, ks)]\<close> and \<^verbatim>\<open>[i % k == 0 for i, k in zip(xs, ks)]\<close>: a
  zero divisor raises while the list is built. The handler binds the name \<^verbatim>\<open>ksize\<close> a
  second time, to the list of quotients, and the model does the same: from the second
  \<open>ksize\<close> on, the name stands for the kernel.
\<close>

definition floor_divs :: "int list \<Rightarrow> int list \<Rightarrow> error + int list" where
  "floor_divs xs ks =
     (if list_ex (\<lambda>(i, k). k = 0) (zip xs ks) then Inl ZeroDivisionError
      else Inr (map (\<lambda>(i, k). i div k) (zip xs ks)))"

definition divisible :: "int list \<Rightarrow> int list \<Rightarrow> error + bool list" where
  "divisible xs ks =
     (if list_ex (\<lambda>(i, k). k = 0) (zip xs ks) then Inl ZeroDivisionError
      else Inr (map (\<lambda>(i, k). i mod k = 0) (zip xs ks)))"

definition aten_adaptive_avg_pool2d ::
  "library \<Rightarrow> value \<Rightarrow> int list \<Rightarrow> state \<Rightarrow> (error + value list) \<times> state" where
  "aten_adaptive_avg_pool2d T inp ksize s =
     (let inputs = [inp, ints ksize] in
      if current_network s \<noteq> None \<and> has_trt_tensor inputs then
        (let net = the (current_network s) in
         case py_shape net (heap s) inp of
           Inl e \<Rightarrow> (Inl e, s)
         | Inr shape \<Rightarrow>
             (let inp_shape = drop 1 shape in
              case floor_divs inp_shape ksize of
                Inl e \<Rightarrow> (Inl e, s)
              | Inr ksize \<Rightarrow>
                  (case divisible inp_shape ksize of
                     Inl e \<Rightarrow> (Inl e, s)
                   | Inr checks \<Rightarrow>
                       if list_all (\<lambda>c. c) checks then
                         (let (layer, net1) = add_layer (Pooling inp Pool_AVERAGE ksize) net
                          in (Inr [get_output layer], s\<lparr>current_network := Some net1\<rparr>))
                       else (Inl AssertionError, s))))
      else fallback T ''F.adaptive_avg_pool2d'' inputs s)"

subsection \<open>slice\<close>

definition trt_torch_slice ::
  "network \<Rightarrow> heap \<Rightarrow> value \<Rightarrow> int \<Rightarrow> int \<Rightarrow> int \<Rightarrow> int \<Rightarrow> (error + value) \<times> network" where
  "trt_torch_slice net h inp axis start end step =
     (case py_shape net h inp of
        Inl e \<Rightarrow> (Inl e, net)
      | Inr shape \<Rightarrow>
          (let ndim = length shape;
               starts = replicate ndim 0;
               out_shapes = shape;
               steps = replicate ndim 1
           in case py_index (axis - 1) ndim of
                None \<Rightarrow> (Inl IndexError, net)
              | Some i \<Rightarrow>
                  (let starts = starts[i := start];
                       out_shapes = out_shapes[i := min end (shape ! i) - start];
                       steps = steps[i := step];
                       (layer, net1) = add_layer (Slice inp starts out_shapes steps) net
                   in (Inr (get_output layer), net1))))"

definition aten_slice ::
  "library \<Rightarrow> value \<Rightarrow> int \<Rightarrow> int \<Rightarrow> int \<Rightarrow> int \<Rightarrow> state \<Rightarrow> (error + value list) \<times> state" where
  "aten_slice T inp axis start end step s =
     (let inputs = [inp, IntV axis, IntV start, IntV end, IntV step] in
      if current_network s \<noteq> None \<and> has_trt_tensor inputs then
        (let sliced =
               (if step \<noteq> 1 then (Inl AssertionError, s)
                else
                  (case trt_torch_slice (the (current_network s)) (heap s) inp axis start end step of
                     (Inl e, net1) \<Rightarrow> (Inl e, s\<lparr>current_network := Some net1\<rparr>)
                   | (Inr output, net1) \<Rightarrow> (Inr [output], s\<lparr>current_network := Some net1\<rparr>)))
         in if axis = 0 then
              (if start = 0 \<and> step = 1 \<and> end > 100000000 then (Inr [inp], s)
               else if \<not> axis > 0 then (Inl AssertionError, s)
               else sliced)
            else sliced)
      else if axis < 0 then (Inl IndexError, s)
      else
        fallback T ''Tensor.__getitem__''
          [inp, ListV (replicate (nat axis) (SliceV None None None)
                        @ [SliceV (Some start) (Some end) (Some step)])] s)"

subsection \<open>Elementwise arithmetic\<close>

definition trt_op :: "string \<Rightarrow> elementwise_op option" where
  "trt_op = map_of
     [(''add'', EW_SUM), (''sub'', EW_SUB), (''mul'', EW_PROD), (''div'', EW_DIV)]"

text \<open>
  \<^verbatim>\<open>try_convert_to_constant\<close>: the first loop keeps the shape of the last symbolic input,
  the second turns every real tensor into a constant layer.
\<close>

fun ref_shape_loop :: "network \<Rightarrow> value list \<Rightarrow> int list option \<Rightarrow> int list option" where
  "ref_shape_loop net [] ref_shape = ref_shape"
| "ref_shape_loop net (inp # inputs) ref_shape =
     ref_shape_loop net inputs
       (case inp of ITensor t \<Rightarrow> Some (tensor_dims net t) | _ \<Rightarrow> ref_shape)"

fun convert_loop ::
  "heap \<Rightarrow> int list option \<Rightarrow> value list \<Rightarrow> value list \<Rightarrow> network
    \<Rightarrow> (error + value list) \<times> network" where
  "convert_loop h ref_shape [] res net = (Inr res, net)"
| "convert_loop h ref_shape (inp # inputs) res net =
     (case inp of
        Tensor a \<Rightarrow>
          (let arr = cells h a;
               arr = (if nd_dtype arr = Float64 then astype Float32 arr else arr)
           in if length (nd_shape arr) = 0 then
                (case ref_shape of
                   None \<Rightarrow> (Inl TypeError, net)
                 | Some dims \<Rightarrow>
                     if length dims = 0 then (Inl TypeError, net)
                     else
                       (let arr = arr\<lparr>nd_shape := replicate (length dims) 1\<rparr>;
                            (layer, net1) = add_layer (Constant (nd_shape arr) (Weights arr)) net
                        in convert_loop h ref_shape inputs (res @ [get_output layer]) net1))
              else
                (let (layer, net1) = add_layer (Constant (nd_shape arr) (Weights arr)) net
                 in convert_loop h ref_shape inputs (res @ [get_output layer]) net1))
      | _ \<Rightarrow> convert_loop h ref_shape inputs (res @ [inp]) net)"

definition try_convert_to_constant ::
  "network \<Rightarrow> heap \<Rightarrow> value list \<Rightarrow> (error + value list) \<times> network" where
  "try_convert_to_constant net h inputs =
     convert_loop h (ref_shape_loop net inputs None) inputs [] net"

text \<open>The branch on the operator inside the scale path: shift and scale.\<close>

definition scale_weights :: "string \<Rightarrow> ndarray \<Rightarrow> error + weights \<times> weights" where
  "scale_weights op scale =
     (if op = ''add'' then
        Inr (Weights (np_array_f32 scale), Weights (np_scalar_f32 1))
      else if op = ''sub'' then
        Inr (Weights (np_array_f32 (np_negative scale)), Weights (np_scalar_f32 1))
      else if op = ''mul'' then
        Inr (Weights (np_scalar_f32 0), Weights (np_array_f32 scale))
      else if op = ''div'' then
        Inr (Weights (np_scalar_f32 0), Weights (np_array_f32 (np_reciprocal scale)))
      else Inl NotImplementedError)"

definition elementwise_of_constants ::
  "network \<Rightarrow> heap \<Rightarrow> value \<Rightarrow> value \<Rightarrow> elementwise_op \<Rightarrow> (error + value) \<times> network" where
  "elementwise_of_constants net h lfs rfs t =
     (case try_convert_to_constant net h [lfs, rfs] of
        (Inl e, net1) \<Rightarrow> (Inl e, net1)
      | (Inr res, net1) \<Rightarrow>
          (case res of
             [lfs', rfs'] \<Rightarrow>
               (let (layer, net2) = add_layer (ElementWise lfs' rfs' t) net1
                in (Inr (get_output layer), net2))
           | _ \<Rightarrow> (Inl ValueError, net1)))"

definition scale_or_elementwise ::
  "network \<Rightarrow> heap \<Rightarrow> value \<Rightarrow> value \<Rightarrow> string \<Rightarrow> (error + value) \<times> network" where
  "scale_or_elementwise net h lfs rfs op =
     (case trt_op op of
        None \<Rightarrow> (Inl AssertionError, net)
      | Some t \<Rightarrow>
          if list_all is_tensor [lfs, rfs] then (Inl AssertionError, net)
          else if list_all is_trt [lfs, rfs] then
            (let (layer, net1) = add_layer (ElementWise lfs rfs t) net
             in (Inr (get_output layer), net1))
          else
            (case rfs of
               Tensor a \<Rightarrow>
                 (let val = cells h a; main = lfs; scale = val in
                  if nd_size val = 1 then
                    (case scale_weights op scale of
                       Inl e \<Rightarrow> (Inl e, net)
                     | Inr (shift, scale) \<Rightarrow>
                         (let power = Weights (np_scalar_f32 1);
                              (layer, net1) =
                                 add_layer (Scale main Scale_UNIFORM shift scale power) net
                          in (Inr (get_output layer), net1)))
                  else elementwise_of_constants net h lfs rfs t)
             | _ \<Rightarrow> elementwise_of_constants net h lfs rfs t))"

text \<open>The conversion branch that the six handlers share.\<close>

definition convert_elementwise ::
  "value \<Rightarrow> value \<Rightarrow> string \<Rightarrow> state \<Rightarrow> (error + value list) \<times> state" where
  "convert_elementwise lfs rfs op s =
     (case scale_or_elementwise (the (current_network s)) (heap s) lfs rfs op of
        (Inl e, net1) \<Rightarrow> (Inl e, s\<lparr>current_network := Some net1\<rparr>)
      | (Inr output, net1) \<Rightarrow> (Inr [output], s\<lparr>current_network := Some net1\<rparr>))"

definition aten_mul :: "library \<Rightarrow> value \<Rightarrow> value \<Rightarrow> state \<Rightarrow> (error + value list) \<times> state" where
  "aten_mul T lfs rfs s =
     (let inputs = [lfs, rfs] in
      if current_network s \<noteq> None \<and> has_trt_tensor inputs then convert_elementwise lfs rfs ''mul'' s
      else fallback T ''Tensor.__mul__'' [lfs, rfs] s)"

definition aten_mul_inplace :: "library \<Rightarrow> value \<Rightarrow> value \<Rightarrow> state \<Rightarrow> (error + value list) \<times> state" where
  "aten_mul_inplace T lfs rfs s =
     (let inputs = [lfs, rfs] in
      if current_network s \<noteq> None \<and> has_trt_tensor inputs then convert_elementwise lfs rfs ''mul'' s
      else fallback T ''Tensor.__imul__'' [lfs, rfs] s)"

definition aten_add_inplace ::
  "library \<Rightarrow> value \<Rightarrow> value \<Rightarrow> int \<Rightarrow> state \<Rightarrow> (error + value list) \<times> state" where
  "aten_add_inplace T lfs rfs alpha s =
     (let inputs = [lfs, rfs, IntV alpha] in
      if alpha \<noteq> 1 then (Inl AssertionError, s)
      else if current_network s \<noteq> None \<and> has_trt_tensor inputs then
        convert_elementwise lfs rfs ''add'' s
      else
        (case torch_call T ''Tensor.add_'' [lfs, rfs] (heap s) of
           (Inl e, h) \<Rightarrow> (Inl e, s\<lparr>heap := h\<rparr>)
         | (Inr v, h) \<Rightarrow> (Inr [lfs], s\<lparr>heap := h\<rparr>)))"

definition aten_add ::
  "library \<Rightarrow> value \<Rightarrow> value \<Rightarrow> int \<Rightarrow> state \<Rightarrow> (error + value list) \<times> state" where
  "aten_add T lfs rfs alpha s =
     (let inputs = [lfs, rfs, IntV alpha] in
      if alpha \<noteq> 1 then (Inl AssertionError, s)
      else if current_network s \<noteq> None \<and> has_trt_tensor inputs then
        convert_elementwise lfs rfs ''add'' s
      else fallback T ''Tensor.__add__'' [lfs, rfs] s)"

definition aten_div :: "library \<Rightarrow> value \<Rightarrow> value \<Rightarrow> state \<Rightarrow> (error + value list) \<times> state" where
  "aten_div T lfs rfs s =
     (let inputs = [lfs, rfs] in
      if current_network s \<noteq> None \<and> has_trt_tensor inputs then convert_elementwise lfs rfs ''div'' s
      else fallback T ''Tensor.__truediv__'' [lfs, rfs] s)"

definition aten_sub ::
  "library \<Rightarrow> value \<Rightarrow> value \<Rightarrow> int \<Rightarrow> state \<Rightarrow> (error + value list) \<times> state" where
  "aten_sub T lfs rfs alpha s =
     (let inputs = [lfs, rfs, IntV alpha] in
      if alpha \<noteq> 1 then (Inl AssertionError, s)
      else if current_network s \<noteq> None \<and> has_trt_tensor inputs then
        convert_elementwise lfs rfs ''sub'' s
      else fallback T ''Tensor.__sub__'' [lfs, rfs] s)"

subsection \<open>\_convolution\<close>

definition aten_convolution ::
  "library \<Rightarrow> value \<Rightarrow> value \<Rightarrow> value \<Rightarrow> int list \<Rightarrow> int list \<Rightarrow> int list \<Rightarrow> bool \<Rightarrow> int list
    \<Rightarrow> int \<Rightarrow> state \<Rightarrow> (error + value list) \<times> state" where
  "aten_convolution T inp weight bias stride pad dilation transposed output_padding groups s =
     (let inputs = [inp, weight, bias, ints stride, ints pad, ints dilation, BoolV transposed,
                    ints output_padding, IntV groups] in
      if current_network s \<noteq> None \<and> has_trt_tensor inputs then
        (let net = the (current_network s) in
         if \<not> list_all (\<lambda>e. e = 0) output_padding then (Inl AssertionError, s)
         else
           (case py_shape net (heap s) weight of
              Inl e \<Rightarrow> (Inl e, s)
            | Inr shape \<Rightarrow>
                if length shape < 2 then (Inl ValueError, s)
                else
                  (let out = (if transposed then (shape ! 1) * groups else shape ! 0);
                       ksize = drop 2 shape;
                       ndim = length ksize
                   in if ndim \<noteq> 2 then (Inl AssertionError, s)
                      else
                        (case numpy (heap s) weight of
                           Inl e \<Rightarrow> (Inl e, s)
                         | Inr weight' \<Rightarrow>
                             (case (if bias \<noteq> NoneV then map_sum id Weights (numpy (heap s) bias)
                                    else Inr EmptyWeights) of
                                Inl e \<Rightarrow> (Inl e, s)
                              | Inr bias' \<Rightarrow>
                                  (let (conv, net1) =
                                         (if transposed then
                                            add_layer (Deconvolution inp out ksize (Weights weight') bias') net
                                          else
                                            (let (conv, net1) =
                                                  add_layer (Convolution inp out ksize (Weights weight') bias') net
                                             in (conv, set_attr conv ''dilation'' (ints dilation) net1)));
                                       net2 = set_attr conv ''stride'' (ints stride) net1;
                                       net3 = set_attr conv ''padding'' (ints pad) net2;
                                       net4 = set_attr conv ''num_groups'' (IntV groups) net3
                                   in (Inr [get_output conv], s\<lparr>current_network := Some net4\<rparr>)))))))
      else if length stride \<noteq> 2 then (Inl AssertionError, s)
      else if transposed then
        fallback T ''F.conv_transpose2d''
          [inp, weight, bias, ints stride, ints pad, ints output_padding, IntV groups, ints dilation] s
      else
        fallback T ''F.conv2d'' [inp, weight, bias, ints stride, ints pad, ints dilation, IntV groups] s)"

subsection \<open>batch\_norm\<close>

text \<open>The two weight arrays of the scale layer, as the handler computes them.\<close>

definition batch_norm_shift ::
  "ndarray \<Rightarrow> ndarray \<Rightarrow> ndarray \<Rightarrow> ndarray \<Rightarrow> npval \<Rightarrow> error + ndarray" where
  "batch_norm_shift running_mean running_var weight bias eps =
     (case np_divide (np_negative running_mean) (np_sqrt (np_add_scalar running_var eps)) of
        Inl e \<Rightarrow> Inl e
      | Inr q \<Rightarrow> (case np_multiply q weight of Inl e \<Rightarrow> Inl e | Inr p \<Rightarrow> np_add p bias))"

definition batch_norm_scale :: "ndarray \<Rightarrow> ndarray \<Rightarrow> npval \<Rightarrow> error + ndarray" where
  "batch_norm_scale running_var weight eps =
     np_divide weight (np_sqrt (np_add_scalar running_var eps))"

definition aten_batch_norm ::
  "library \<Rightarrow> value \<Rightarrow> value \<Rightarrow> value \<Rightarrow> value \<Rightarrow> value \<Rightarrow> bool \<Rightarrow> npval \<Rightarrow> npval \<Rightarrow> state
    \<Rightarrow> (error + value list) \<times> state" where
  "aten_batch_norm T inp weight bias running_mean running_var training momentum eps s =
     (let inputs = [inp, weight, bias, running_mean, running_var, BoolV training,
                    FloatV momentum, FloatV eps] in
      if current_network s \<noteq> None \<and> has_trt_tensor inputs then
        (let net = the (current_network s) in
         case numpy (heap s) running_mean of
           Inl e \<Rightarrow> (Inl e, s)
         | Inr running_mean' \<Rightarrow>
         (case numpy (heap s) running_var of
           Inl e \<Rightarrow> (Inl e, s)
         | Inr running_var' \<Rightarrow>
         (case numpy (heap s) weight of
           Inl e \<Rightarrow> (Inl e, s)
         | Inr weight' \<Rightarrow>
         (case numpy (heap s) bias of
           Inl e \<Rightarrow> (Inl e, s)
         | Inr bias' \<Rightarrow>
         (case batch_norm_shift running_mean' running_var' weight' bias' eps of
           Inl e \<Rightarrow> (Inl e, s)
         | Inr shift \<Rightarrow>
         (case batch_norm_scale running_var' weight' eps of
           Inl e \<Rightarrow> (Inl e, s)
         | Inr scale \<Rightarrow>
             (let (bn, net1) =
                    add_layer (Scale inp Scale_CHANNEL (Weights shift) (Weights scale)
                                 (Weights (np_ones_like shift))) net
              in (Inr [get_output bn], s\<lparr>current_network := Some net1\<rparr>))))))))
      else
        fallback T ''F.batch_norm''
          [inp, running_mean, running_var, weight, bias, BoolV training, FloatV momentum, FloatV eps] s)"

subsection \<open>sum and max\<close>

text \<open>
  The bit and the mask of \<^verbatim>\<open>_axes_to_trt_axis\<close> are 0-d \<^verbatim>\<open>uint32\<close> arrays, and the shift
  count \<^verbatim>\<open>ax - 1\<close> is a Python integer. A count below 32 gives the bit \<open>2 ^ count\<close>,
  which fits 32 bits, in whatever type NumPy computes the shift. From 32 on the result
  depends on that type (\<^verbatim>\<open>int64\<close> under the promotion rules of NumPy 1, \<^verbatim>\<open>uint32\<close> under
  those of NumPy 2, where a count that the type cannot hold raises): this part is taken
  from the library.
\<close>

definition np_left_shift_one :: "library \<Rightarrow> nat \<Rightarrow> error + int" where
  "np_left_shift_one T n = (if n < 32 then Inr (2 ^ n) else np_wide_shift T n)"

text \<open>
  The mask is kept as the integer that \<^verbatim>\<open>int(res)\<close> returns at the end; \<^verbatim>\<open>np.bitwise_or\<close>
  is the or of the two's complement digits of its operands. The parameter \<open>ndim\<close> is
  not used.
\<close>

fun axes_loop :: "library \<Rightarrow> int list \<Rightarrow> int \<Rightarrow> error + int" where
  "axes_loop T [] res = Inr res"
| "axes_loop T (ax # axes) res =
     (if ax > 0 then
        (case np_left_shift_one T (nat (ax - 1)) of
           Inl e \<Rightarrow> Inl e
         | Inr shifted \<Rightarrow> axes_loop T axes (res OR shifted))
      else Inl AssertionError)"

definition axes_to_trt_axis :: "library \<Rightarrow> int list \<Rightarrow> nat \<Rightarrow> error + int" where
  "axes_to_trt_axis T axes ndim = (let res = 0 in axes_loop T axes res)"

definition aten_sum ::
  "library \<Rightarrow> value \<Rightarrow> int list \<Rightarrow> bool \<Rightarrow> state \<Rightarrow> (error + value list) \<times> state" where
  "aten_sum T inp axes keepdim s =
     (let inputs = [inp, ints axes, BoolV keepdim] in
      if current_network s \<noteq> None \<and> has_trt_tensor inputs then
        (let net = the (current_network s) in
         case py_shape net (heap s) inp of
           Inl e \<Rightarrow> (Inl e, s)
         | Inr shape \<Rightarrow>
             (case axes_to_trt_axis T axes (length shape) of
                Inl e \<Rightarrow> (Inl e, s)
              | Inr axis_trt \<Rightarrow>
                  (let (layer, net1) = add_layer (Reduce inp Reduce_SUM axis_trt keepdim) net
                   in (Inr [get_output layer], s\<lparr>current_network := Some net1\<rparr>))))
      else fallback T ''Tensor.sum'' [inp, ints axes, BoolV keepdim] s)"

definition aten_max ::
  "library \<Rightarrow> value \<Rightarrow> int \<Rightarrow> bool \<Rightarrow> state \<Rightarrow> (error + value list) \<times> state" where
  "aten_max T inp axis keepdim s =
     (let inputs = [inp, IntV axis, BoolV keepdim] in
      if current_network s \<noteq> None \<and> has_trt_tensor inputs then
        (let net = the (current_network s) in
         case py_shape net (heap s) inp of
           Inl e \<Rightarrow> (Inl e, s)
         | Inr shape \<Rightarrow>
             (case axes_to_trt_axis T [axis] (length shape) of
                Inl e \<Rightarrow> (Inl e, s)
              | Inr axis_trt \<Rightarrow>
                  (let (layer, net1) = add_layer (Reduce inp Reduce_MAX axis_trt keepdim) net
                   in (Inr [get_output layer, NoneV], s\<lparr>current_network := Some net1\<rparr>))))
      else
        (case torch_max T inp axis keepdim (heap s) of
           (Inl e, h) \<Rightarrow> (Inl e, s\<lparr>heap := h\<rparr>)
         | (Inr (values, indices), h) \<Rightarrow> (Inr [values, indices], s\<lparr>heap := h\<rparr>)))"

section \<open>Example inputs\<close>

text \<open>
  Two instances of the wide shift. NumPy 1 computes the shift in \<^verbatim>\<open>int64\<close>, for a count
  that fits 64 bits: bit 63 is the sign, and a count of 64 or more gives 0. NumPy 2
  computes it in \<^verbatim>\<open>uint32\<close>: a count of 32 or more gives 0, and a count that \<^verbatim>\<open>uint32\<close>
  cannot hold raises.
\<close>

definition numpy1_shift :: "nat \<Rightarrow> error + int" where
  "numpy1_shift n = (if n < 63 then Inr (2 ^ n) else if n = 63 then Inr (- (2 ^ 63)) else Inr 0)"

definition numpy2_shift :: "nat \<Rightarrow> error + int" where
  "numpy2_shift n = (if n < 2 ^ 32 then Inr 0 else Inl OverflowError)"

text \<open>
  A tensor library that implements nothing, with either NumPy, an empty network whose
  symbolic tensors all have dimensions \<open>[3, 8, 8]\<close>, and a heap of ten real tensors.
\<close>

definition no_torch :: library where
  "no_torch =
     \<lparr>torch_call = (\<lambda>name args h. (Inl NotImplementedError, h)),
      torch_max = (\<lambda>x d k h. (Inl NotImplementedError, h)),
      np_wide_shift = numpy1_shift\<rparr>"

definition no_torch_numpy2 :: library where
  "no_torch_numpy2 = no_torch\<lparr>np_wide_shift := numpy2_shift\<rparr>"

definition empty_network :: network where
  "empty_network = \<lparr>layers = [], tensor_dims = (\<lambda>t. [3, 8, 8])\<rparr>"

definition vec :: "dtype \<Rightarrow> real list \<Rightarrow> ndarray" where
  "vec d xs = \<lparr>nd_dtype = d, nd_shape = [length xs], nd_data = map Fin xs\<rparr>"

definition example_heap :: heap where
  "example_heap =
     \<lparr>cells = (\<lambda>a. if a = 0 then vec Float32 [2]
                    else if a = 1 then vec Float32 [0]
                    else if a = 2 then vec Float64 [1, 2, 3]
                    else if a = 3 then
                      \<lparr>nd_dtype = Float64, nd_shape = [1, 1, 2, 2],
                       nd_data = map Fin [1, 2, 3, 4]\<rparr>
                    else if a = 4 then vec Float64 [7]
                    else if a = 5 then vec Float32 [- 1, 5]
                    else if a = 6 then
                      \<lparr>nd_dtype = Float32, nd_shape = [1, 1, 2, 2],
                       nd_data = map Fin [1, 2, 3, 4]\<rparr>
                    else if a = 7 then vec Float32 [3]
                    else if a = 8 then vec Float32 [3 / 2]
                    else vec Float32 [1 / 2]),
      next_addr = 10\<rparr>"

definition building :: state where
  "building = \<lparr>current_network = Some empty_network, heap = example_heap\<rparr>"

definition idle :: state where
  "idle = \<lparr>current_network = None, heap = example_heap\<rparr>"

definition max_torch :: library where
  "max_torch =
     \<lparr>torch_call = (\<lambda>name args h. (Inl NotImplementedError, h)),
      torch_max = (\<lambda>x d k h.
         (Inr (Tensor (next_addr h), Tensor (Suc (next_addr h))),
          h\<lparr>cells := (cells h)(next_addr h := vec Float32 [5], Suc (next_addr h) := vec Int64 [1]),
            next_addr := next_addr h + 2\<rparr>)),
      np_wide_shift = numpy1_shift\<rparr>"

section \<open>Facts about the network\<close>

lemma set_attr_last:
  "set_attr (length (layers net)) name v (net\<lparr>layers := layers net @ [L]\<rparr>) =
     net\<lparr>layers := layers net @ [L\<lparr>attrs := attrs L @ [(name, v)]\<rparr>]\<rparr>"
  by (simp add: set_attr_def)

section \<open>The axis mask\<close>

lemma bit_shifted_one: "bit (2 ^ n :: int) i \<longleftrightarrow> i = n"
  by (auto simp add: bit_simps)

lemma axes_loop_bits:
  "list_all (\<lambda>ax. 0 < ax \<and> ax \<le> 32) axes \<Longrightarrow>
     \<exists>r. axes_loop T axes res = Inr r \<and> (\<forall>i. bit r i \<longleftrightarrow> bit res i \<or> int i + 1 \<in> set axes)"
proof (induction axes arbitrary: res)
  case Nil
  then show ?case by simp
next
  case (Cons ax axes)
  then have pos: "0 < ax" and small: "ax \<le> 32"
    and rest: "list_all (\<lambda>ax. 0 < ax \<and> ax \<le> 32) axes" by simp_all
  from Cons.IH [OF rest, of "res OR 2 ^ nat (ax - 1)"]
  obtain r where r: "axes_loop T axes (res OR 2 ^ nat (ax - 1)) = Inr r"
    and bits: "\<forall>i. bit r i \<longleftrightarrow> bit (res OR 2 ^ nat (ax - 1)) i \<or> int i + 1 \<in> set axes"
    by blast
  have "int i + 1 = ax \<longleftrightarrow> i = nat (ax - 1)" for i using pos by auto
  moreover have "nat (ax - 1) < 32" using small by simp
  ultimately show ?case using pos r bits
    by (auto simp add: np_left_shift_one_def bit_or_iff bit_shifted_one)
qed

lemma axes_loop_fails:
  "list_all (\<lambda>ax. ax \<le> 32) axes \<Longrightarrow> list_ex (\<lambda>ax. ax \<le> 0) axes \<Longrightarrow>
     axes_loop T axes res = Inl AssertionError"
  by (induction axes arbitrary: res) (auto simp add: np_left_shift_one_def)

lemma axes_to_trt_axis_single:
  "ax \<le> 32 \<Longrightarrow>
     axes_to_trt_axis T [ax] ndim = (if 0 < ax then Inr (2 ^ nat (ax - 1)) else Inl AssertionError)"
  by (auto simp add: axes_to_trt_axis_def np_left_shift_one_def)

lemma axes_to_trt_axis_bits:
  assumes "list_all (\<lambda>ax. 0 < ax \<and> ax \<le> 32) axes"
  shows "\<exists>mask. axes_to_trt_axis T axes ndim = Inr mask \<and>
           (\<forall>i. bit mask i \<longleftrightarrow> int i + 1 \<in> set axes)"
  using axes_loop_bits [OF assms, of T 0] by (simp add: axes_to_trt_axis_def)

lemma axes_to_trt_axis_fails:
  "list_all (\<lambda>ax. ax \<le> 32) axes \<Longrightarrow> list_ex (\<lambda>ax. ax \<le> 0) axes \<Longrightarrow>
     axes_to_trt_axis T axes ndim = Inl AssertionError"
  by (simp add: axes_to_trt_axis_def axes_loop_fails)

lemma aten_max_convert:
  assumes "current_network s = Some net" and "axis \<le> 32"
  shows "aten_max T (ITensor t) axis keepdim s =
     (if 0 < axis then
        (Inr [ITensor (LayerOutput (length (layers net))), NoneV],
         s\<lparr>current_network := Some (net\<lparr>layers := layers net @
             [\<lparr>kind = Reduce (ITensor t) Reduce_MAX (2 ^ nat (axis - 1)) keepdim,
               attrs = []\<rparr>]\<rparr>)\<rparr>)
      else (Inl AssertionError, s))"
  using assms
  by (simp add: aten_max_def has_trt_tensor_def py_shape_def axes_to_trt_axis_single
      add_layer_def get_output_def)

lemma aten_sum_convert:
  assumes "current_network s = Some net" and "list_all (\<lambda>ax. 0 < ax \<and> ax \<le> 32) axes"
  shows "\<exists>mask. aten_sum T (ITensor t) axes keepdim s =
        (Inr [ITensor (LayerOutput (length (layers net)))],
         s\<lparr>current_network := Some (net\<lparr>layers := layers net @
             [\<lparr>kind = Reduce (ITensor t) Reduce_SUM mask keepdim, attrs = []\<rparr>]\<rparr>)\<rparr>)
      \<and> (\<forall>i. bit mask i \<longleftrightarrow> int i + 1 \<in> set axes)"
proof -
  from axes_to_trt_axis_bits [OF assms(2), of T "length (tensor_dims net t)"]
  obtain mask where "axes_to_trt_axis T axes (length (tensor_dims net t)) = Inr mask"
    and "\<forall>i. bit mask i \<longleftrightarrow> int i + 1 \<in> set axes"
    by blast
  then show ?thesis using assms(1)
    by (intro exI [of _ mask])
      (simp add: aten_sum_def has_trt_tensor_def py_shape_def add_layer_def get_output_def)
qed

lemma aten_sum_rejects:
  assumes "current_network s = Some net" and "list_all (\<lambda>ax. ax \<le> 32) axes"
    and "list_ex (\<lambda>ax. ax \<le> 0) axes"
  shows "aten_sum T (ITensor t) axes keepdim s = (Inl AssertionError, s)"
  using assms
  by (simp add: aten_sum_def has_trt_tensor_def py_shape_def axes_to_trt_axis_fails)

section \<open>The scale path of the elementwise handlers\<close>

lemma has_trt_elem_not_tensor: "has_trt_elem x \<Longrightarrow> \<not> is_tensor x"
  by (cases x) simp_all

lemma scale_path:
  assumes "trt_op op = Some t" and "\<not> is_tensor lfs" and "nd_size (cells h a) = 1"
    and "scale_weights op (cells h a) = Inr (shift, scale)"
  shows "scale_or_elementwise net h lfs (Tensor a) op =
     (Inr (ITensor (LayerOutput (length (layers net)))),
      net\<lparr>layers := layers net @
        [\<lparr>kind = Scale lfs Scale_UNIFORM shift scale (Weights (np_scalar_f32 1)), attrs = []\<rparr>]\<rparr>)"
  using assms by (simp add: scale_or_elementwise_def add_layer_def get_output_def)

lemma convert_scale_path:
  assumes "current_network s = Some net" and "has_trt_elem lfs"
    and "nd_size (cells (heap s) a) = 1"
    and "trt_op op = Some t"
    and "scale_weights op (cells (heap s) a) = Inr (shift, scale)"
  shows "convert_elementwise lfs (Tensor a) op s =
     (Inr [ITensor (LayerOutput (length (layers net)))],
      s\<lparr>current_network := Some (net\<lparr>layers := layers net @
        [\<lparr>kind = Scale lfs Scale_UNIFORM shift scale (Weights (np_scalar_f32 1)), attrs = []\<rparr>]\<rparr>)\<rparr>)"
  using assms scale_path [of op t lfs "heap s" a shift scale net]
  by (simp add: convert_elementwise_def has_trt_elem_not_tensor)

section \<open>Arrays of one shape\<close>

lemma broadcast_shapes_same: "broadcast_shapes [n] [n] = Some [n]"
  by (simp add: broadcast_shapes_def)

lemma broadcast_to_same:
  assumes "nd_shape a = [n]" and "length (nd_data a) = n"
  shows "broadcast_to [n] a = nd_data a"
proof -
  have "src_index [n] [n] k = k" if "k < n" for k
    using that by simp
  then have "map (\<lambda>k. nd_data a ! src_index [n] [n] k) [0..<n] = map (\<lambda>k. nd_data a ! k) [0..<n]"
    by simp
  also have "\<dots> = nd_data a"
    using map_nth [of "nd_data a"] assms(2) by simp
  finally show ?thesis
    using assms(1) by (simp add: broadcast_to_def)
qed

lemma np_binary_same:
  assumes "nd_shape a = [n]" and "length (nd_data a) = n"
    and "nd_shape b = [n]" and "length (nd_data b) = n"
  shows "np_binary f d a b =
     Inr \<lparr>nd_dtype = d, nd_shape = [n],
          nd_data = map (\<lambda>(x, y). f x y) (zip (nd_data a) (nd_data b))\<rparr>"
  using assms by (simp add: np_binary_def broadcast_shapes_same broadcast_to_same)

lemma neg_div_mul:
  "np_multiply_val (np_divide_val (np_negative_val m) s) w =
   np_multiply_val (np_negative_val m) (np_divide_val w s)"
  by (cases m; cases s; cases w)
    (auto simp add: zero_less_mult_iff zero_less_divide_iff not_less divide_less_0_iff
      mult_less_0_iff)

lemma np_binary_pointwise:
  assumes "nd_shape a = [n]" and "nd_data a = map g [0..<n]"
    and "nd_shape b = [n]" and "nd_data b = map h [0..<n]"
  shows "np_binary f d a b =
     Inr \<lparr>nd_dtype = d, nd_shape = [n], nd_data = map (\<lambda>c. f (g c) (h c)) [0..<n]\<rparr>"
proof -
  have "map (\<lambda>(x, y). f x y) (zip (nd_data a) (nd_data b)) = map (\<lambda>c. f (g c) (h c)) [0..<n]"
    using assms(2,4) by (auto intro!: nth_equalityI)
  then show ?thesis
    using np_binary_same [of a n b f d] assms by simp
qed

lemma data_by_index: "length xs = n \<Longrightarrow> xs = map (\<lambda>c. xs ! c) [0..<n]"
  by (auto intro!: nth_equalityI)

lemma batch_norm_scale_vectors:
  assumes "nd_shape rv = [n]" and "nd_data rv = v" and "length v = n"
    and "nd_shape wt = [n]" and "nd_data wt = w" and "length w = n"
  shows "\<exists>d. batch_norm_scale rv wt eps =
     Inr \<lparr>nd_dtype = d, nd_shape = [n],
          nd_data = map (\<lambda>c. np_divide_val (w ! c) (np_sqrt_val (np_add_val (v ! c) eps))) [0..<n]\<rparr>"
proof -
  have sq_shape: "nd_shape (np_sqrt (np_add_scalar rv eps)) = [n]"
    using assms(1) by (simp add: np_sqrt_def np_add_scalar_def)
  have sq: "nd_data (np_sqrt (np_add_scalar rv eps)) =
      map (\<lambda>c. np_sqrt_val (np_add_val (v ! c) eps)) [0..<n]"
    using assms(2,3) by (auto simp add: np_sqrt_def np_add_scalar_def intro!: nth_equalityI)
  have w: "nd_data wt = map (\<lambda>c. w ! c) [0..<n]"
    using assms(5,6) data_by_index by blast
  show ?thesis
    by (simp add: batch_norm_scale_def np_divide_def np_binary_pointwise [OF assms(4) w sq_shape sq])
qed

lemma batch_norm_shift_vectors:
  assumes "nd_shape rm = [n]" and "nd_data rm = m" and "length m = n"
    and "nd_shape rv = [n]" and "nd_data rv = v" and "length v = n"
    and "nd_shape wt = [n]" and "nd_data wt = w" and "length w = n"
    and "nd_shape bs = [n]" and "nd_data bs = b" and "length b = n"
  shows "\<exists>d. batch_norm_shift rm rv wt bs eps =
     Inr \<lparr>nd_dtype = d, nd_shape = [n],
          nd_data = map (\<lambda>c. np_add_val
             (np_multiply_val (np_negative_val (m ! c))
                (np_divide_val (w ! c) (np_sqrt_val (np_add_val (v ! c) eps))))
             (b ! c)) [0..<n]\<rparr>"
proof -
  have sq_shape: "nd_shape (np_sqrt (np_add_scalar rv eps)) = [n]"
    using assms(4) by (simp add: np_sqrt_def np_add_scalar_def)
  have sq: "nd_data (np_sqrt (np_add_scalar rv eps)) =
      map (\<lambda>c. np_sqrt_val (np_add_val (v ! c) eps)) [0..<n]"
    using assms(5,6) by (auto simp add: np_sqrt_def np_add_scalar_def intro!: nth_equalityI)
  have neg_shape: "nd_shape (np_negative rm) = [n]"
    using assms(1) by (simp add: np_negative_def)
  have neg: "nd_data (np_negative rm) = map (\<lambda>c. np_negative_val (m ! c)) [0..<n]"
    using assms(2,3) by (auto simp add: np_negative_def intro!: nth_equalityI)
  have w: "nd_data wt = map (\<lambda>c. w ! c) [0..<n]"
    using assms(8,9) data_by_index by blast
  have b: "nd_data bs = map (\<lambda>c. b ! c) [0..<n]"
    using assms(11,12) data_by_index by blast
  define q where "q d = \<lparr>nd_dtype = d, nd_shape = [n],
      nd_data = map (\<lambda>c. np_divide_val (np_negative_val (m ! c))
                            (np_sqrt_val (np_add_val (v ! c) eps))) [0..<n]\<rparr>" for d
  define p where "p d = \<lparr>nd_dtype = d, nd_shape = [n],
      nd_data = map (\<lambda>c. np_multiply_val (np_negative_val (m ! c))
                            (np_divide_val (w ! c) (np_sqrt_val (np_add_val (v ! c) eps)))) [0..<n]\<rparr>" for d
  have quotient: "np_binary np_divide_val d (np_negative rm) (np_sqrt (np_add_scalar rv eps)) = Inr (q d)" for d
    by (simp add: q_def np_binary_pointwise [OF neg_shape neg sq_shape sq])
  have product: "np_binary np_multiply_val d' (q d) wt = Inr (p d')" for d d'
    using np_binary_pointwise [where a = "q d" and n = n and b = wt and f = np_multiply_val
        and d = d' and h = "\<lambda>c. w ! c"
        and g = "\<lambda>c. np_divide_val (np_negative_val (m ! c)) (np_sqrt_val (np_add_val (v ! c) eps))"]
      assms(7) w
    by (simp add: q_def p_def neg_div_mul)
  have total: "np_binary np_add_val d' (p d) bs =
      Inr \<lparr>nd_dtype = d', nd_shape = [n],
           nd_data = map (\<lambda>c. np_add_val
             (np_multiply_val (np_negative_val (m ! c))
                (np_divide_val (w ! c) (np_sqrt_val (np_add_val (v ! c) eps))))
             (b ! c)) [0..<n]\<rparr>" for d d'
    using np_binary_pointwise [where a = "p d" and n = n and b = bs and f = np_add_val
        and d = d' and h = "\<lambda>c. b ! c"
        and g = "\<lambda>c. np_multiply_val (np_negative_val (m ! c))
                   (np_divide_val (w ! c) (np_sqrt_val (np_add_val (v ! c) eps)))"]
      assms(10) b
    by (simp add: p_def)
  show ?thesis
    by (simp add: batch_norm_shift_def np_divide_def np_multiply_def np_add_def
        quotient product total)
qed

section \<open>Weights and constants\<close>

lemma convolution_convert:
  assumes net: "current_network s = Some net"
    and pad: "list_all (\<lambda>e. e = 0) output_padding"
    and shape: "nd_shape (cells (heap s) w) = [c0, c1, kh, kw]"
    and bias: "bias = NoneV \<or> is_tensor bias"
  shows "aten_convolution T (ITensor t) (Tensor w) bias stride pad dilation transposed
           output_padding groups s =
     (let weight = Weights (cells (heap s) w);
          bias' = (case bias of Tensor b \<Rightarrow> Weights (cells (heap s) b) | _ \<Rightarrow> EmptyWeights)
      in (Inr [ITensor (LayerOutput (length (layers net)))],
      s\<lparr>current_network := Some (net\<lparr>layers := layers net @
        [if transposed then
           \<lparr>kind = Deconvolution (ITensor t) (int c1 * groups) [int kh, int kw] weight bias',
            attrs = [(''stride'', ints stride), (''padding'', ints pad),
                     (''num_groups'', IntV groups)]\<rparr>
         else
           \<lparr>kind = Convolution (ITensor t) (int c0) [int kh, int kw] weight bias',
            attrs = [(''dilation'', ints dilation), (''stride'', ints stride),
                     (''padding'', ints pad), (''num_groups'', IntV groups)]\<rparr>]\<rparr>)\<rparr>))"
proof -
  have b: "(if bias \<noteq> NoneV then map_sum id Weights (numpy (heap s) bias) else Inr EmptyWeights)
      = Inr (case bias of Tensor b \<Rightarrow> Weights (cells (heap s) b) | _ \<Rightarrow> EmptyWeights)"
    using bias by (cases bias) (simp_all add: numpy_def)
  show ?thesis
    using net pad shape
    by (cases transposed)
      (simp_all add: aten_convolution_def has_trt_tensor_def py_shape_def b numpy_def
        add_layer_def set_attr_last get_output_def Let_def del: map_sum.simps)
qed

lemma constant_of_real_tensor:
  assumes "nd_shape (cells h a) \<noteq> [] \<or> tensor_dims net t \<noteq> []"
  shows "try_convert_to_constant net h [ITensor t, Tensor a] =
     (let arr = cells h a;
          arr = arr\<lparr>nd_dtype := (if nd_dtype arr = Float64 then Float32 else nd_dtype arr)\<rparr>;
          arr = (if nd_shape arr = [] then arr\<lparr>nd_shape := replicate (length (tensor_dims net t)) 1\<rparr>
                 else arr)
      in (Inr [ITensor t, ITensor (LayerOutput (length (layers net)))],
          net\<lparr>layers := layers net @ [\<lparr>kind = Constant (nd_shape arr) (Weights arr), attrs = []\<rparr>]\<rparr>))"
  using assms
  by (auto simp add: try_convert_to_constant_def astype_def add_layer_def get_output_def Let_def)

section \<open>The claims\<close>

text \<open>
  C1. \<^verbatim>\<open>aten::adaptive_avg_pool2d\<close> in conversion mode is meant to accept an input
  whose spatial sizes are multiples of the target sizes and to fail otherwise. The
  handler rebinds \<^verbatim>\<open>ksize\<close> to the kernel \<^verbatim>\<open>input // target\<close> before its assertion,
  so the assertion tests divisibility by the kernel, not by the target: for the spatial
  size \<open>[8, 8]\<close> and the target \<open>[3, 3]\<close> it does not fail, and adds an average-pooling
  layer with kernel \<open>[2, 2]\<close>, the layer it adds for the target \<open>[4, 4]\<close>.
\<close>

theorem adaptive_avg_pool2d_accepts_8_by_3:
  "aten_adaptive_avg_pool2d no_torch (ITensor (NetInput 0)) [3, 3] building =
     (Inr [ITensor (LayerOutput 0)],
      building\<lparr>current_network := Some (empty_network\<lparr>layers :=
          [\<lparr>kind = Pooling (ITensor (NetInput 0)) Pool_AVERAGE [2, 2], attrs = []\<rparr>]\<rparr>)\<rparr>)
   \<and> aten_adaptive_avg_pool2d no_torch (ITensor (NetInput 0)) [4, 4] building =
     (Inr [ITensor (LayerOutput 0)],
      building\<lparr>current_network := Some (empty_network\<lparr>layers :=
          [\<lparr>kind = Pooling (ITensor (NetInput 0)) Pool_AVERAGE [2, 2], attrs = []\<rparr>]\<rparr>)\<rparr>)
   \<and> drop 1 (tensor_dims empty_network (NetInput 0)) = [8, 8]"
  by (simp add: aten_adaptive_avg_pool2d_def building_def empty_network_def has_trt_tensor_def
      ints_def py_shape_def floor_divs_def divisible_def add_layer_def get_output_def)

text \<open>
  C2, as amended. In the dispatch shared by \<^verbatim>\<open>aten::add\<close>, \<^verbatim>\<open>aten::add_\<close>,
  \<^verbatim>\<open>aten::sub\<close>, \<^verbatim>\<open>aten::mul\<close>, \<^verbatim>\<open>aten::mul_\<close> and \<^verbatim>\<open>aten::div\<close>, in conversion
  mode: whenever the right operand is a real tensor with a single element \<open>v\<close>, the
  handler adds a uniform scale layer on the left operand, with shift \<open>v\<close> and scale 1 for
  add, shift \<open>-v\<close> and scale 1 for sub, shift 0 and scale \<open>v\<close> for mul, shift 0 and scale
  \<open>1 / v\<close> for div, and power 1, all float32.
\<close>

theorem single_element_right_operand_folds_into_scale:
  assumes "current_network s = Some net" and "has_trt_tensor [lfs, Tensor a]"
    and "cells (heap s) a = \<lparr>nd_dtype = d, nd_shape = sh, nd_data = [v]\<rparr>"
    and "prod_list sh = 1"
  shows "let f32 = (\<lambda>x. Weights \<lparr>nd_dtype = Float32, nd_shape = sh, nd_data = [x]\<rparr>);
             const = (\<lambda>x. Weights \<lparr>nd_dtype = Float32, nd_shape = [], nd_data = [Fin x]\<rparr>);
             built = (\<lambda>shift scale.
               (Inr [ITensor (LayerOutput (length (layers net)))],
                s\<lparr>current_network := Some (net\<lparr>layers := layers net @
                  [\<lparr>kind = Scale lfs Scale_UNIFORM shift scale (const 1), attrs = []\<rparr>]\<rparr>)\<rparr>))
         in aten_add T lfs (Tensor a) 1 s = built (f32 v) (const 1)
          \<and> aten_add_inplace T lfs (Tensor a) 1 s = built (f32 v) (const 1)
          \<and> aten_sub T lfs (Tensor a) 1 s = built (f32 (np_negative_val v)) (const 1)
          \<and> aten_mul T lfs (Tensor a) s = built (const 0) (f32 v)
          \<and> aten_mul_inplace T lfs (Tensor a) s = built (const 0) (f32 v)
          \<and> aten_div T lfs (Tensor a) s = built (const 0) (f32 (np_divide_val (Fin 1) v))"
proof -
  have lfs: "has_trt_elem lfs" using assms(2) by (simp add: has_trt_tensor_def)
  have size: "nd_size (cells (heap s) a) = 1" using assms(3,4) by (simp add: nd_size_def)
  note path = convert_scale_path [OF assms(1) lfs size]
  have add: "scale_weights ''add'' (cells (heap s) a) =
      Inr (Weights \<lparr>nd_dtype = Float32, nd_shape = sh, nd_data = [v]\<rparr>,
           Weights \<lparr>nd_dtype = Float32, nd_shape = [], nd_data = [Fin 1]\<rparr>)"
    using assms(3) by (simp add: scale_weights_def np_scalar_f32_def np_array_f32_def astype_def)
  have sub: "scale_weights ''sub'' (cells (heap s) a) =
      Inr (Weights \<lparr>nd_dtype = Float32, nd_shape = sh, nd_data = [np_negative_val v]\<rparr>,
           Weights \<lparr>nd_dtype = Float32, nd_shape = [], nd_data = [Fin 1]\<rparr>)"
    using assms(3)
    by (simp add: scale_weights_def np_scalar_f32_def np_array_f32_def astype_def np_negative_def)
  have mul: "scale_weights ''mul'' (cells (heap s) a) =
      Inr (Weights \<lparr>nd_dtype = Float32, nd_shape = [], nd_data = [Fin 0]\<rparr>,
           Weights \<lparr>nd_dtype = Float32, nd_shape = sh, nd_data = [v]\<rparr>)"
    using assms(3) by (simp add: scale_weights_def np_scalar_f32_def np_array_f32_def astype_def)
  have div: "scale_weights ''div'' (cells (heap s) a) =
      Inr (Weights \<lparr>nd_dtype = Float32, nd_shape = [], nd_data = [Fin 0]\<rparr>,
           Weights \<lparr>nd_dtype = Float32, nd_shape = sh, nd_data = [np_divide_val (Fin 1) v]\<rparr>)"
    using assms(3)
    by (simp add: scale_weights_def np_scalar_f32_def np_array_f32_def astype_def np_reciprocal_def)
  have gate: "has_trt_tensor [lfs, Tensor a, IntV 1]"
    using lfs by (simp add: has_trt_tensor_def)
  show ?thesis
    using assms(1,2) gate path [OF _ add, of EW_SUM] path [OF _ sub, of EW_SUB]
      path [OF _ mul, of EW_PROD] path [OF _ div, of EW_DIV]
    by (simp add: aten_add_def aten_add_inplace_def aten_sub_def aten_mul_def
        aten_mul_inplace_def aten_div_def trt_op_def np_scalar_f32_def)
qed

theorem single_element_right_operand_folds_into_scale_witness:
  "(let f32 = (\<lambda>x. Weights \<lparr>nd_dtype = Float32, nd_shape = [1], nd_data = [Fin x]\<rparr>);
        const = (\<lambda>x. Weights \<lparr>nd_dtype = Float32, nd_shape = [], nd_data = [Fin x]\<rparr>);
        built = (\<lambda>shift scale.
          (Inr [ITensor (LayerOutput 0)],
           building\<lparr>current_network := Some (empty_network\<lparr>layers :=
             [\<lparr>kind = Scale (ITensor (NetInput 0)) Scale_UNIFORM shift scale (const 1),
               attrs = []\<rparr>]\<rparr>)\<rparr>))
    in aten_add no_torch (ITensor (NetInput 0)) (Tensor 0) 1 building = built (f32 2) (const 1)
     \<and> aten_add_inplace no_torch (ITensor (NetInput 0)) (Tensor 0) 1 building = built (f32 2) (const 1)
     \<and> aten_sub no_torch (ITensor (NetInput 0)) (Tensor 0) 1 building = built (f32 (- 2)) (const 1)
     \<and> aten_mul no_torch (ITensor (NetInput 0)) (Tensor 0) building = built (const 0) (f32 2)
     \<and> aten_mul_inplace no_torch (ITensor (NetInput 0)) (Tensor 0) building = built (const 0) (f32 2)
     \<and> aten_div no_torch (ITensor (NetInput 0)) (Tensor 0) building = built (const 0) (f32 (1 / 2)))"
  using single_element_right_operand_folds_into_scale [of building empty_network
      "ITensor (NetInput 0)" 0 Float32 "[1]" "Fin 2" no_torch]
  by (simp add: building_def empty_network_def has_trt_tensor_def example_heap_def vec_def)

text \<open>
  As first stated, for a real tensor on either side, the claim fails: with the
  single-element tensor on the left of a subtraction the handler adds a constant layer
  and an elementwise layer.
\<close>

theorem single_element_left_operand_is_not_folded:
  "aten_sub no_torch (Tensor 0) (ITensor (NetInput 0)) 1 building =
     (Inr [ITensor (LayerOutput 1)],
      building\<lparr>current_network := Some (empty_network\<lparr>layers :=
        [\<lparr>kind = Constant [1] (Weights (vec Float32 [2])), attrs = []\<rparr>,
         \<lparr>kind = ElementWise (ITensor (LayerOutput 0)) (ITensor (NetInput 0)) EW_SUB,
           attrs = []\<rparr>]\<rparr>)\<rparr>)
   \<and> nd_size (cells (heap building) 0) = 1"
  by (simp add: aten_sub_def convert_elementwise_def scale_or_elementwise_def
      elementwise_of_constants_def try_convert_to_constant_def trt_op_def
      building_def empty_network_def has_trt_tensor_def example_heap_def vec_def
      add_layer_def get_output_def astype_def nd_size_def)

text \<open>
  C3, as amended. \<^verbatim>\<open>aten::_convolution\<close> in conversion mode copies weight and bias to
  host memory with the dtype the tensors have: the buffers are float32 when the tensors
  are, and a float64 weight stays float64. An absent bias gives an empty weights object.
  \<^verbatim>\<open>try_convert_to_constant\<close> is where float64 is downcast: the constant it makes of a
  real tensor is float32 for a float32 or a float64 tensor, and keeps any other dtype.
\<close>

theorem host_buffers_dtype:
  "(current_network s = Some net \<and> list_all (\<lambda>e. e = 0) output_padding
      \<and> nd_shape (cells (heap s) w) = [c0, c1, kh, kw] \<and> (bias = NoneV \<or> is_tensor bias) \<longrightarrow>
      aten_convolution T (ITensor t) (Tensor w) bias stride pad dilation transposed
           output_padding groups s =
     (let weight = Weights (cells (heap s) w);
          bias' = (case bias of Tensor b \<Rightarrow> Weights (cells (heap s) b) | _ \<Rightarrow> EmptyWeights)
      in (Inr [ITensor (LayerOutput (length (layers net)))],
      s\<lparr>current_network := Some (net\<lparr>layers := layers net @
        [if transposed then
           \<lparr>kind = Deconvolution (ITensor t) (int c1 * groups) [int kh, int kw] weight bias',
            attrs = [(''stride'', ints stride), (''padding'', ints pad),
                     (''num_groups'', IntV groups)]\<rparr>
         else
           \<lparr>kind = Convolution (ITensor t) (int c0) [int kh, int kw] weight bias',
            attrs = [(''dilation'', ints dilation), (''stride'', ints stride),
                     (''padding'', ints pad), (''num_groups'', IntV groups)]\<rparr>]\<rparr>)\<rparr>)))
   \<and> (nd_shape (cells h a) \<noteq> [] \<or> tensor_dims net t \<noteq> [] \<longrightarrow>
      try_convert_to_constant net h [ITensor t, Tensor a] =
     (let arr = cells h a;
          arr = arr\<lparr>nd_dtype := (if nd_dtype arr = Float64 then Float32 else nd_dtype arr)\<rparr>;
          arr = (if nd_shape arr = [] then arr\<lparr>nd_shape := replicate (length (tensor_dims net t)) 1\<rparr>
                 else arr)
      in (Inr [ITensor t, ITensor (LayerOutput (length (layers net)))],
          net\<lparr>layers := layers net @ [\<lparr>kind = Constant (nd_shape arr) (Weights arr), attrs = []\<rparr>]\<rparr>)))"
  using convolution_convert [of s net output_padding w c0 c1 kh kw bias T t stride pad dilation transposed groups]
    constant_of_real_tensor [of h a net t]
  by blast

theorem host_buffers_dtype_witness:
  "aten_convolution no_torch (ITensor (NetInput 0)) (Tensor 6) NoneV [1, 1] [0, 0] [1, 1] False
       [0, 0] 1 building =
     (Inr [ITensor (LayerOutput 0)],
      building\<lparr>current_network := Some (empty_network\<lparr>layers :=
        [\<lparr>kind = Convolution (ITensor (NetInput 0)) 1 [2, 2]
            (Weights \<lparr>nd_dtype = Float32, nd_shape = [1, 1, 2, 2], nd_data = map Fin [1, 2, 3, 4]\<rparr>)
            EmptyWeights,
          attrs = [(''dilation'', ints [1, 1]), (''stride'', ints [1, 1]),
                   (''padding'', ints [0, 0]), (''num_groups'', IntV 1)]\<rparr>]\<rparr>)\<rparr>)
   \<and> try_convert_to_constant empty_network example_heap [ITensor (NetInput 0), Tensor 2] =
     (Inr [ITensor (NetInput 0), ITensor (LayerOutput 0)],
      empty_network\<lparr>layers := [\<lparr>kind = Constant [3] (Weights (vec Float32 [1, 2, 3])), attrs = []\<rparr>]\<rparr>)"
  using host_buffers_dtype [of building empty_network "[0, 0]" 6 1 1 2 2 NoneV no_torch "NetInput 0"
      "[1, 1]" "[0, 0]" "[1, 1]" False 1 example_heap 2]
  by (simp add: building_def empty_network_def example_heap_def vec_def)

text \<open>
  As first stated, with float32 buffers for every real tensor, the claim fails: the
  layer of a convolution with a float64 weight and bias holds float64 buffers.
\<close>

theorem convolution_keeps_float64_weights:
  "aten_convolution no_torch (ITensor (NetInput 0)) (Tensor 3) (Tensor 4) [1, 1] [0, 0] [1, 1] False
       [0, 0] 1 building =
     (Inr [ITensor (LayerOutput 0)],
      building\<lparr>current_network := Some (empty_network\<lparr>layers :=
        [\<lparr>kind = Convolution (ITensor (NetInput 0)) 1 [2, 2]
            (Weights \<lparr>nd_dtype = Float64, nd_shape = [1, 1, 2, 2], nd_data = map Fin [1, 2, 3, 4]\<rparr>)
            (Weights \<lparr>nd_dtype = Float64, nd_shape = [1], nd_data = [Fin 7]\<rparr>),
          attrs = [(''dilation'', ints [1, 1]), (''stride'', ints [1, 1]),
                   (''padding'', ints [0, 0]), (''num_groups'', IntV 1)]\<rparr>]\<rparr>)\<rparr>)"
  by (simp add: aten_convolution_def has_trt_tensor_def py_shape_def numpy_def add_layer_def
      set_attr_last get_output_def building_def empty_network_def example_heap_def vec_def)

text \<open>
  C4. \<^verbatim>\<open>aten::slice\<close> in conversion mode on axis 0: with start 0, step 1 and an end above
  100,000,000 the handler returns its input and leaves the network as it was; with any
  other start, end or step it fails with an assertion error.
\<close>

theorem slice_batch_axis:
  assumes "current_network s \<noteq> None"
    and "has_trt_tensor [inp, IntV 0, IntV start, IntV end, IntV step]"
  shows "aten_slice T inp 0 start end step s =
     (if start = 0 \<and> step = 1 \<and> end > 100000000 then (Inr [inp], s)
      else (Inl AssertionError, s))"
  using assms by (simp add: aten_slice_def)

theorem slice_batch_axis_witness:
  "aten_slice no_torch (ITensor (NetInput 0)) 0 0 (2 ^ 31) 1 building =
     (Inr [ITensor (NetInput 0)], building)
   \<and> aten_slice no_torch (ITensor (NetInput 0)) 0 0 5 1 building = (Inl AssertionError, building)
   \<and> aten_slice no_torch (ITensor (NetInput 0)) 0 1 (2 ^ 31) 1 building = (Inl AssertionError, building)
   \<and> aten_slice no_torch (ITensor (NetInput 0)) 0 0 (2 ^ 31) 2 building = (Inl AssertionError, building)"
  using slice_batch_axis [of building "ITensor (NetInput 0)" 0 "2 ^ 31" 1 no_torch]
    slice_batch_axis [of building "ITensor (NetInput 0)" 0 5 1 no_torch]
    slice_batch_axis [of building "ITensor (NetInput 0)" 1 "2 ^ 31" 1 no_torch]
    slice_batch_axis [of building "ITensor (NetInput 0)" 0 "2 ^ 31" 2 no_torch]
  by (simp add: building_def has_trt_tensor_def)

text \<open>
  C5. \<^verbatim>\<open>aten::relu\<close> adds a ReLU activation layer and returns its output whenever a
  network is active, whatever its operand is; \<^verbatim>\<open>aten::relu_\<close> does so only when a
  network is active and an operand is symbolic. Otherwise \<^verbatim>\<open>relu\<close> runs the real
  out-of-place ReLU and \<^verbatim>\<open>relu_\<close> the real in-place one: on a real tensor the first
  returns a new tensor and leaves the operand as it was, the second overwrites the
  operand and returns it.
\<close>

theorem relu_gates:
  "(current_network s = Some net \<longrightarrow>
      aten_relu inp s =
        (Inr [ITensor (LayerOutput (length (layers net)))],
         s\<lparr>current_network := Some (net\<lparr>layers := layers net @
             [\<lparr>kind = Activation inp Act_RELU, attrs = []\<rparr>]\<rparr>)\<rparr>))
   \<and> (current_network s = None \<longrightarrow>
      aten_relu inp s =
        (case F_relu inp (heap s) of
           (Inl e, h) \<Rightarrow> (Inl e, s\<lparr>heap := h\<rparr>)
         | (Inr v, h) \<Rightarrow> (Inr [v], s\<lparr>heap := h\<rparr>)))
   \<and> (current_network s = Some net \<and> has_trt_tensor [inp] \<longrightarrow>
      aten_relu_inplace inp s =
        (Inr [ITensor (LayerOutput (length (layers net)))],
         s\<lparr>current_network := Some (net\<lparr>layers := layers net @
             [\<lparr>kind = Activation inp Act_RELU, attrs = []\<rparr>]\<rparr>)\<rparr>))
   \<and> (\<not> (current_network s \<noteq> None \<and> has_trt_tensor [inp]) \<longrightarrow>
      aten_relu_inplace inp s =
        (case F_relu_inplace inp (heap s) of
           (Inl e, h) \<Rightarrow> (Inl e, s\<lparr>heap := h\<rparr>)
         | (Inr v, h) \<Rightarrow> (Inr [v], s\<lparr>heap := h\<rparr>)))
   \<and> F_relu (Tensor a) h =
        (Inr (Tensor (next_addr h)),
         h\<lparr>cells := (cells h)(next_addr h := relu_array (cells h a)),
           next_addr := Suc (next_addr h)\<rparr>)
   \<and> F_relu_inplace (Tensor a) h =
        (Inr (Tensor a), h\<lparr>cells := (cells h)(a := relu_array (cells h a))\<rparr>)"
  by (simp add: aten_relu_def aten_relu_inplace_def add_layer_def get_output_def
      F_relu_def F_relu_inplace_def)

theorem relu_gates_witness:
  "aten_relu (Tensor 5) building =
     (Inr [ITensor (LayerOutput 0)],
      building\<lparr>current_network := Some (empty_network\<lparr>layers :=
          [\<lparr>kind = Activation (Tensor 5) Act_RELU, attrs = []\<rparr>]\<rparr>)\<rparr>)
   \<and> aten_relu (Tensor 5) idle =
     (Inr [Tensor 10],
      idle\<lparr>heap := example_heap\<lparr>cells := (cells example_heap)(10 := vec Float32 [0, 5]),
                                  next_addr := 11\<rparr>\<rparr>)
   \<and> aten_relu_inplace (ITensor (NetInput 0)) building =
     (Inr [ITensor (LayerOutput 0)],
      building\<lparr>current_network := Some (empty_network\<lparr>layers :=
          [\<lparr>kind = Activation (ITensor (NetInput 0)) Act_RELU, attrs = []\<rparr>]\<rparr>)\<rparr>)
   \<and> aten_relu_inplace (Tensor 5) building =
     (Inr [Tensor 5],
      building\<lparr>heap := example_heap\<lparr>cells := (cells example_heap)(5 := vec Float32 [0, 5])\<rparr>\<rparr>)"
  using relu_gates [of building empty_network "Tensor 5" 5 example_heap]
    relu_gates [of idle empty_network "Tensor 5" 5 example_heap]
    relu_gates [of building empty_network "ITensor (NetInput 0)" 5 example_heap]
  by (simp add: building_def idle_def empty_network_def has_trt_tensor_def example_heap_def
      relu_array_def relu_val_def vec_def)

text \<open>
  C6. \<^verbatim>\<open>aten::batch_norm\<close> in conversion mode, for statistics, weight and bias that are
  vectors of one length: the handler adds a per-channel scale layer with
  \<open>scale[c] = weight[c] / sqrt(running_var[c] + eps)\<close>,
  \<open>shift[c] = -running_mean[c] * scale[c] + bias[c]\<close> and power 1 for every channel, in
  NumPy's arithmetic. For finite values with \<open>running_var[c] + eps\<close> positive these are
  the quotient and the sum of the real numbers.
\<close>

theorem batch_norm_scale_and_shift:
  assumes "current_network s = Some net"
    and "cells (heap s) rm = \<lparr>nd_dtype = d1, nd_shape = [n], nd_data = m\<rparr>"
    and "cells (heap s) rv = \<lparr>nd_dtype = d2, nd_shape = [n], nd_data = v\<rparr>"
    and "cells (heap s) wt = \<lparr>nd_dtype = d3, nd_shape = [n], nd_data = w\<rparr>"
    and "cells (heap s) bs = \<lparr>nd_dtype = d4, nd_shape = [n], nd_data = b\<rparr>"
    and "length m = n" and "length v = n" and "length w = n" and "length b = n"
  shows "(\<exists>d d'.
      let scale = (\<lambda>c. np_divide_val (w ! c) (np_sqrt_val (np_add_val (v ! c) eps)));
          shift = (\<lambda>c. np_add_val (np_multiply_val (np_negative_val (m ! c)) (scale c)) (b ! c))
      in aten_batch_norm T (ITensor t) (Tensor wt) (Tensor bs) (Tensor rm) (Tensor rv)
            training momentum eps s =
         (Inr [ITensor (LayerOutput (length (layers net)))],
          s\<lparr>current_network := Some (net\<lparr>layers := layers net @
            [\<lparr>kind = Scale (ITensor t) Scale_CHANNEL
                (Weights \<lparr>nd_dtype = d, nd_shape = [n], nd_data = map shift [0..<n]\<rparr>)
                (Weights \<lparr>nd_dtype = d', nd_shape = [n], nd_data = map scale [0..<n]\<rparr>)
                (Weights \<lparr>nd_dtype = d, nd_shape = [n], nd_data = map (\<lambda>c. Fin 1) [0..<n]\<rparr>),
              attrs = []\<rparr>]\<rparr>)\<rparr>))
    \<and> (\<forall>x y z u e. 0 < y + e \<longrightarrow>
          np_divide_val (Fin z) (np_sqrt_val (np_add_val (Fin y) (Fin e))) = Fin (z / sqrt (y + e))
          \<and> np_add_val (np_multiply_val (np_negative_val (Fin x)) (Fin (z / sqrt (y + e)))) (Fin u)
              = Fin (- x * (z / sqrt (y + e)) + u))"
proof -
  from batch_norm_shift_vectors [of "cells (heap s) rm" n m "cells (heap s) rv" v
      "cells (heap s) wt" w "cells (heap s) bs" b eps] assms
  obtain d where shift: "batch_norm_shift (cells (heap s) rm) (cells (heap s) rv)
      (cells (heap s) wt) (cells (heap s) bs) eps =
     Inr \<lparr>nd_dtype = d, nd_shape = [n],
          nd_data = map (\<lambda>c. np_add_val
             (np_multiply_val (np_negative_val (m ! c))
                (np_divide_val (w ! c) (np_sqrt_val (np_add_val (v ! c) eps))))
             (b ! c)) [0..<n]\<rparr>"
    by auto
  from batch_norm_scale_vectors [of "cells (heap s) rv" n v "cells (heap s) wt" w eps] assms
  obtain d' where scale: "batch_norm_scale (cells (heap s) rv) (cells (heap s) wt) eps =
     Inr \<lparr>nd_dtype = d', nd_shape = [n],
          nd_data = map (\<lambda>c. np_divide_val (w ! c) (np_sqrt_val (np_add_val (v ! c) eps))) [0..<n]\<rparr>"
    by auto
  have handler: "aten_batch_norm T (ITensor t) (Tensor wt) (Tensor bs) (Tensor rm) (Tensor rv)
            training momentum eps s =
         (Inr [ITensor (LayerOutput (length (layers net)))],
          s\<lparr>current_network := Some (net\<lparr>layers := layers net @
            [\<lparr>kind = Scale (ITensor t) Scale_CHANNEL
                (Weights \<lparr>nd_dtype = d, nd_shape = [n],
                   nd_data = map (\<lambda>c. np_add_val
                     (np_multiply_val (np_negative_val (m ! c))
                        (np_divide_val (w ! c) (np_sqrt_val (np_add_val (v ! c) eps))))
                     (b ! c)) [0..<n]\<rparr>)
                (Weights \<lparr>nd_dtype = d', nd_shape = [n],
                   nd_data = map (\<lambda>c. np_divide_val (w ! c) (np_sqrt_val (np_add_val (v ! c) eps))) [0..<n]\<rparr>)
                (Weights \<lparr>nd_dtype = d, nd_shape = [n], nd_data = map (\<lambda>c. Fin 1) [0..<n]\<rparr>),
              attrs = []\<rparr>]\<rparr>)\<rparr>)"
    using assms(1)
    by (simp add: aten_batch_norm_def has_trt_tensor_def numpy_def shift scale np_ones_like_def
        add_layer_def get_output_def comp_def)
  have finite: "np_divide_val (Fin z) (np_sqrt_val (np_add_val (Fin y) (Fin e))) = Fin (z / sqrt (y + e))
      \<and> np_add_val (np_multiply_val (np_negative_val (Fin x)) (Fin (z / sqrt (y + e)))) (Fin u)
          = Fin (- x * (z / sqrt (y + e)) + u)"
    if "0 < y + e" for x y z u e :: real
    using that by simp
  from handler finite show ?thesis
    unfolding Let_def by blast
qed

theorem batch_norm_scale_and_shift_witness:
  "\<exists>d d'. aten_batch_norm no_torch (ITensor (NetInput 0)) (Tensor 8) (Tensor 9) (Tensor 0) (Tensor 7)
       False (Fin (1 / 10)) (Fin (1 / 100000)) building =
     (Inr [ITensor (LayerOutput 0)],
      building\<lparr>current_network := Some (empty_network\<lparr>layers :=
        [\<lparr>kind = Scale (ITensor (NetInput 0)) Scale_CHANNEL
            (Weights \<lparr>nd_dtype = d, nd_shape = [1],
               nd_data = [Fin (- 2 * ((3 / 2) / sqrt (3 + 1 / 100000)) + 1 / 2)]\<rparr>)
            (Weights \<lparr>nd_dtype = d', nd_shape = [1],
               nd_data = [Fin ((3 / 2) / sqrt (3 + 1 / 100000))]\<rparr>)
            (Weights \<lparr>nd_dtype = d, nd_shape = [1], nd_data = [Fin 1]\<rparr>),
          attrs = []\<rparr>]\<rparr>)\<rparr>)"
  using batch_norm_scale_and_shift [of building empty_network 0 Float32 1 "[Fin 2]" 7 Float32 "[Fin 3]"
      8 Float32 "[Fin (3 / 2)]" 9 Float32 "[Fin (1 / 2)]" "Fin (1 / 100000)" no_torch "NetInput 0" False "Fin (1 / 10)"]
  by (simp add: building_def empty_network_def example_heap_def vec_def)

text \<open>
  C7. \<^verbatim>\<open>aten::max\<close> over one axis. In conversion mode, for an axis from 1 to 32, the
  handler adds a MAX reduce layer whose mask is bit \<open>axis - 1\<close>, with
  the given keep-dimensions flag, and returns the layer's output followed by \<^verbatim>\<open>None\<close>.
  In fallback mode it returns the two results of the real \<^verbatim>\<open>max\<close>, the values and the
  indices.
\<close>

theorem max_outputs:
  "(current_network s = Some net \<and> 0 < axis \<and> axis \<le> 32 \<longrightarrow>
      aten_max T (ITensor t) axis keepdim s =
        (Inr [ITensor (LayerOutput (length (layers net))), NoneV],
         s\<lparr>current_network := Some (net\<lparr>layers := layers net @
             [\<lparr>kind = Reduce (ITensor t) Reduce_MAX (2 ^ nat (axis - 1)) keepdim,
               attrs = []\<rparr>]\<rparr>)\<rparr>))
   \<and> (\<not> (current_network s \<noteq> None \<and> has_trt_tensor [inp, IntV axis, BoolV keepdim])
        \<and> torch_max T inp axis keepdim (heap s) = (Inr (values, indices), h) \<longrightarrow>
      aten_max T inp axis keepdim s = (Inr [values, indices], s\<lparr>heap := h\<rparr>))"
proof -
  have "aten_max T inp axis keepdim s = (Inr [values, indices], s\<lparr>heap := h\<rparr>)"
    if "\<not> (current_network s \<noteq> None \<and> has_trt_tensor [inp, IntV axis, BoolV keepdim])"
      and "torch_max T inp axis keepdim (heap s) = (Inr (values, indices), h)"
    using that by (cases "current_network s") (auto simp add: aten_max_def)
  then show ?thesis by (simp add: aten_max_convert)
qed

theorem max_outputs_witness:
  "aten_max no_torch (ITensor (NetInput 0)) 2 True building =
     (Inr [ITensor (LayerOutput 0), NoneV],
      building\<lparr>current_network := Some (empty_network\<lparr>layers :=
          [\<lparr>kind = Reduce (ITensor (NetInput 0)) Reduce_MAX 2 True, attrs = []\<rparr>]\<rparr>)\<rparr>)
   \<and> aten_max max_torch (Tensor 5) 0 False idle =
     (Inr [Tensor 10, Tensor 11],
      idle\<lparr>heap := example_heap\<lparr>cells := (cells example_heap)
                                    (10 := vec Float32 [5], 11 := vec Int64 [1]),
                                  next_addr := 12\<rparr>\<rparr>)"
  using max_outputs [of building empty_network 2 no_torch "NetInput 0" True "Tensor 5" "Tensor 5" "Tensor 5" example_heap]
    max_outputs [of idle empty_network 0 max_torch "NetInput 0" False "Tensor 5" "Tensor 10" "Tensor 11"
       "example_heap\<lparr>cells := (cells example_heap)(10 := vec Float32 [5], 11 := vec Int64 [1]),
          next_addr := 12\<rparr>"]
  by (simp add: building_def idle_def empty_network_def max_torch_def example_heap_def)

text \<open>
  C8. \<^verbatim>\<open>aten::div\<close> in conversion mode with a single-element real tensor on the right
  takes the reciprocal of its value without any test for zero: for the value 0 the
  handler does not fail, and the scale of the layer it adds is the infinity that NumPy's
  division gives.
\<close>

theorem div_by_zero_tensor_not_rejected:
  assumes "current_network s = Some net" and "has_trt_tensor [lfs, Tensor a]"
    and "cells (heap s) a = \<lparr>nd_dtype = d, nd_shape = sh, nd_data = [Fin x]\<rparr>"
    and "prod_list sh = 1"
  shows "aten_div T lfs (Tensor a) s =
     (Inr [ITensor (LayerOutput (length (layers net)))],
      s\<lparr>current_network := Some (net\<lparr>layers := layers net @
        [\<lparr>kind = Scale lfs Scale_UNIFORM
            (Weights \<lparr>nd_dtype = Float32, nd_shape = [], nd_data = [Fin 0]\<rparr>)
            (Weights \<lparr>nd_dtype = Float32, nd_shape = sh,
                      nd_data = [if x = 0 then PosInf else Fin (1 / x)]\<rparr>)
            (Weights \<lparr>nd_dtype = Float32, nd_shape = [], nd_data = [Fin 1]\<rparr>),
          attrs = []\<rparr>]\<rparr>)\<rparr>)"
proof -
  have lfs: "has_trt_elem lfs" using assms(2) by (simp add: has_trt_tensor_def)
  have "scale_weights ''div'' (cells (heap s) a) =
      Inr (Weights \<lparr>nd_dtype = Float32, nd_shape = [], nd_data = [Fin 0]\<rparr>,
           Weights \<lparr>nd_dtype = Float32, nd_shape = sh,
                     nd_data = [if x = 0 then PosInf else Fin (1 / x)]\<rparr>)"
    using assms(3)
    by (simp add: scale_weights_def np_scalar_f32_def np_array_f32_def astype_def np_reciprocal_def)
  from convert_scale_path [OF assms(1) lfs _ _ this, of EW_DIV]
  show ?thesis using assms
    by (simp add: aten_div_def nd_size_def trt_op_def np_scalar_f32_def)
qed

theorem div_by_zero_tensor_not_rejected_witness:
  "aten_div no_torch (ITensor (NetInput 0)) (Tensor 1) building =
     (Inr [ITensor (LayerOutput 0)],
      building\<lparr>current_network := Some (empty_network\<lparr>layers :=
        [\<lparr>kind = Scale (ITensor (NetInput 0)) Scale_UNIFORM
            (Weights \<lparr>nd_dtype = Float32, nd_shape = [], nd_data = [Fin 0]\<rparr>)
            (Weights \<lparr>nd_dtype = Float32, nd_shape = [1], nd_data = [PosInf]\<rparr>)
            (Weights \<lparr>nd_dtype = Float32, nd_shape = [], nd_data = [Fin 1]\<rparr>),
          attrs = []\<rparr>]\<rparr>)\<rparr>)"
  using div_by_zero_tensor_not_rejected [of building empty_network "ITensor (NetInput 0)" 1
      Float32 "[1]" 0 no_torch]
  by (simp add: building_def empty_network_def has_trt_tensor_def example_heap_def vec_def)

text \<open>
  C9. \<^verbatim>\<open>aten::max_pool2d\<close> in conversion mode checks the dilation after it has added the
  pooling layer and set its stride and padding: with a dilation other than 1 the handler
  fails with an assertion error, and the network it leaves holds the new layer.
\<close>

theorem max_pool2d_fails_after_adding_layer:
  assumes "current_network s = Some net"
    and "has_trt_tensor [inp, ints ksize, ints stride, ints pad, ints dilation]"
    and "list_ex (\<lambda>b. b \<noteq> 1) dilation"
  shows "aten_max_pool2d T inp ksize stride pad dilation s =
     (Inl AssertionError,
      s\<lparr>current_network := Some (net\<lparr>layers := layers net @
          [\<lparr>kind = Pooling inp Pool_MAX ksize,
            attrs = [(''stride'', ints stride), (''padding'', ints pad)]\<rparr>]\<rparr>)\<rparr>)"
proof -
  have "\<not> list_all (\<lambda>b. b = 1) dilation"
    using assms(3) by (simp add: list_all_iff list_ex_iff)
  then show ?thesis
    using assms(1,2) by (simp add: aten_max_pool2d_def add_layer_def set_attr_last)
qed

theorem max_pool2d_fails_after_adding_layer_witness:
  "aten_max_pool2d no_torch (ITensor (NetInput 0)) [2, 2] [2, 2] [0, 0] [1, 2] building =
     (Inl AssertionError,
      building\<lparr>current_network := Some (empty_network\<lparr>layers :=
          [\<lparr>kind = Pooling (ITensor (NetInput 0)) Pool_MAX [2, 2],
            attrs = [(''stride'', ints [2, 2]), (''padding'', ints [0, 0])]\<rparr>]\<rparr>)\<rparr>)"
  using max_pool2d_fails_after_adding_layer [of building empty_network "ITensor (NetInput 0)"
      "[2, 2]" "[2, 2]" "[0, 0]" "[1, 2]" no_torch]
  by (simp add: building_def empty_network_def has_trt_tensor_def ints_def)

text \<open>
  C10, as amended. In conversion mode \<^verbatim>\<open>aten::sum\<close> and \<^verbatim>\<open>aten::max\<close> only require
  their axes to be greater than 0: an axis that is not fails the assertion of the mask
  helper, the helper does not use the rank it is given, and nothing compares an axis
  with the rank. So for every axis from 1 to 32, whatever the rank of the tensor is, the
  handlers succeed and the mask of the reduce layer has bit \<open>axis - 1\<close>.
\<close>

theorem reduce_axes_are_not_compared_with_rank:
  "(current_network s = Some net \<and> 0 < axis \<and> axis \<le> 32 \<longrightarrow>
      aten_max T (ITensor t) axis keepdim s =
        (Inr [ITensor (LayerOutput (length (layers net))), NoneV],
         s\<lparr>current_network := Some (net\<lparr>layers := layers net @
             [\<lparr>kind = Reduce (ITensor t) Reduce_MAX (2 ^ nat (axis - 1)) keepdim,
               attrs = []\<rparr>]\<rparr>)\<rparr>))
   \<and> (current_network s = Some net \<and> axis \<le> 0 \<longrightarrow>
      aten_max T (ITensor t) axis keepdim s = (Inl AssertionError, s))
   \<and> (current_network s = Some net \<and> list_all (\<lambda>ax. 0 < ax \<and> ax \<le> 32) axes \<longrightarrow>
      (\<exists>mask. aten_sum T (ITensor t) axes keepdim s =
        (Inr [ITensor (LayerOutput (length (layers net)))],
         s\<lparr>current_network := Some (net\<lparr>layers := layers net @
             [\<lparr>kind = Reduce (ITensor t) Reduce_SUM mask keepdim, attrs = []\<rparr>]\<rparr>)\<rparr>)
        \<and> (\<forall>i. bit mask i \<longleftrightarrow> int i + 1 \<in> set axes)))
   \<and> (current_network s = Some net \<and> list_all (\<lambda>ax. ax \<le> 32) axes
        \<and> list_ex (\<lambda>ax. ax \<le> 0) axes \<longrightarrow>
      aten_sum T (ITensor t) axes keepdim s = (Inl AssertionError, s))
   \<and> axes_to_trt_axis T axes ndim = axes_to_trt_axis T axes 0"
  using aten_sum_convert [of s net axes T t keepdim] aten_sum_rejects [of s net axes T t keepdim]
    aten_max_convert [of s net axis T t keepdim]
  by (simp add: axes_to_trt_axis_def)

theorem reduce_axes_are_not_compared_with_rank_witness:
  "aten_max no_torch (ITensor (NetInput 0)) 5 False building =
     (Inr [ITensor (LayerOutput 0), NoneV],
      building\<lparr>current_network := Some (empty_network\<lparr>layers :=
          [\<lparr>kind = Reduce (ITensor (NetInput 0)) Reduce_MAX 16 False, attrs = []\<rparr>]\<rparr>)\<rparr>)
   \<and> length (tensor_dims empty_network (NetInput 0)) = 3
   \<and> aten_max no_torch (ITensor (NetInput 0)) 0 False building = (Inl AssertionError, building)
   \<and> aten_sum no_torch (ITensor (NetInput 0)) [1, 5] False building =
     (Inr [ITensor (LayerOutput 0)],
      building\<lparr>current_network := Some (empty_network\<lparr>layers :=
          [\<lparr>kind = Reduce (ITensor (NetInput 0)) Reduce_SUM 17 False, attrs = []\<rparr>]\<rparr>)\<rparr>)
   \<and> aten_sum no_torch (ITensor (NetInput 0)) [1, 0] False building = (Inl AssertionError, building)"
  using reduce_axes_are_not_compared_with_rank [of building empty_network 5 no_torch "NetInput 0" False "[1, 5]" 3]
    reduce_axes_are_not_compared_with_rank [of building empty_network 0 no_torch "NetInput 0" False "[1, 0]" 3]
  by (simp add: building_def empty_network_def aten_sum_def has_trt_tensor_def py_shape_def
      axes_to_trt_axis_def np_left_shift_one_def add_layer_def get_output_def ints_def)

text \<open>
  As first stated, with a mask bit for every axis above the rank, the claim fails: on a
  tensor of three dimensions the axis 65 is accepted, and the mask of the layer is 0,
  with the shift of NumPy 1 and with the shift of NumPy 2. With the shift of NumPy 2
  the axis 33 gives the mask 0 as well.
\<close>

theorem reduce_axis_65_sets_no_bit:
  "aten_max no_torch (ITensor (NetInput 0)) 65 False building =
     (Inr [ITensor (LayerOutput 0), NoneV],
      building\<lparr>current_network := Some (empty_network\<lparr>layers :=
          [\<lparr>kind = Reduce (ITensor (NetInput 0)) Reduce_MAX 0 False, attrs = []\<rparr>]\<rparr>)\<rparr>)
   \<and> aten_max no_torch_numpy2 (ITensor (NetInput 0)) 65 False building =
     (Inr [ITensor (LayerOutput 0), NoneV],
      building\<lparr>current_network := Some (empty_network\<lparr>layers :=
          [\<lparr>kind = Reduce (ITensor (NetInput 0)) Reduce_MAX 0 False, attrs = []\<rparr>]\<rparr>)\<rparr>)
   \<and> aten_max no_torch_numpy2 (ITensor (NetInput 0)) 33 False building =
     (Inr [ITensor (LayerOutput 0), NoneV],
      building\<lparr>current_network := Some (empty_network\<lparr>layers :=
          [\<lparr>kind = Reduce (ITensor (NetInput 0)) Reduce_MAX 0 False, attrs = []\<rparr>]\<rparr>)\<rparr>)
   \<and> length (tensor_dims empty_network (NetInput 0)) = 3"
  by (simp add: aten_max_def has_trt_tensor_def py_shape_def axes_to_trt_axis_def
      np_left_shift_one_def no_torch_def no_torch_numpy2_def numpy1_shift_def numpy2_shift_def
      add_layer_def get_output_def building_def empty_network_def)

end
